theory Spec2Isabelle
  imports Complex_Main
begin

section \<open>Tensors and the errors of the tensor library\<close>

text \<open>
  A two-dimensional tensor is a list of rows. The numbers of \<^verbatim>\<open>hgcl.py\<close> are modelled
  as real numbers: every floating-point operation is read as the exact operation it rounds.
  Every exception that the script or one of the library calls it makes can raise is a value
  of \<open>error\<close>.
\<close>

type_synonym matrix = "real list list"

datatype error =
    RangeStepZero      \<comment> \<open>\<^verbatim>\<open>range(0, n, 0)\<close>: ValueError\<close>
  | TopkOutOfRange     \<comment> \<open>\<^verbatim>\<open>torch.topk\<close> with more entries asked for than the dimension has: RuntimeError\<close>
  | CatEmptyList       \<comment> \<open>\<^verbatim>\<open>torch.cat\<close> of an empty list of tensors: RuntimeError\<close>
  | ShapeMismatch      \<comment> \<open>operands whose shapes do not fit: RuntimeError\<close>
  | IndexOutOfRange    \<comment> \<open>indexing a tensor beyond its size: IndexError\<close>
  | NameUndefined      \<comment> \<open>reading a variable that was never assigned: NameError\<close>
  | EmptyRange         \<comment> \<open>\<^verbatim>\<open>random.randint(a, b)\<close> with \<open>b < a\<close>: ValueError\<close>
  | NotFinite          \<comment> \<open>no exception: the floating-point result is \<^verbatim>\<open>nan\<close> or infinite, so no real number\<close>
  | EvaluatorError     \<comment> \<open>an exception raised inside the linear-probe evaluator\<close>
  | ModelError         \<comment> \<open>an exception raised inside a forward or backward pass\<close>

definition dot :: "real list \<Rightarrow> real list \<Rightarrow> real" where
  "dot u v = sum_list (map (\<lambda>(a, b). a * b) (zip u v))"

definition l2norm :: "real list \<Rightarrow> real" where
  "l2norm v = sqrt (sum_list (map (\<lambda>a. a * a) v))"

section \<open>The k-nearest-neighbour hypergraph (\<^verbatim>\<open>build_knn_hypergraph\<close>, lines 37-65)\<close>

text \<open>
  \<^verbatim>\<open>F.cosine_similarity(x1, x2, dim=-1)\<close> with its default \<open>eps = 1e-8\<close>: the dot product of
  the two rows divided by the product of their norms, each norm bounded below by \<open>eps\<close>.
\<close>

definition cosine_similarity :: "real list \<Rightarrow> real list \<Rightarrow> real" where
  "cosine_similarity u v =
     dot u v / (max (l2norm u) (1 / 10 ^ 8) * max (l2norm v) (1 / 10 ^ 8))"

text \<open>
  \<^verbatim>\<open>torch.topk(row, k)\<close> on one row: the positions of the \<open>k\<close> largest entries, largest
  first. The library leaves the order of equal entries open; the model puts the lower
  position first. Asking for more entries than the row has raises.
\<close>

definition topk_indices :: "real list \<Rightarrow> nat \<Rightarrow> nat list" where
  "topk_indices row k = take k (sort_key (\<lambda>j. - (row ! j)) [0..<length row])"

definition topk :: "matrix \<Rightarrow> nat \<Rightarrow> error + nat list list" where
  "topk sim k =
     (if \<exists>row \<in> set sim. length row < k then Inl TopkOutOfRange
      else Inr (map (\<lambda>row. topk_indices row k) sim))"

text \<open>
  The body of the batch loop (lines 43-53) for the batch that starts at row \<open>i\<close>: the
  similarities of the rows of the batch with all rows, the \<open>k + 1\<close> best positions of each
  row, and the first column dropped.
\<close>

definition knn_batch :: "nat \<Rightarrow> matrix \<Rightarrow> nat \<Rightarrow> nat \<Rightarrow> error + nat list list" where
  "knn_batch B x k i =
     (let batch = take B (drop i x);
          sim_batch = map (\<lambda>u. map (\<lambda>v. cosine_similarity u v) x) batch
      in case topk sim_batch (k + 1) of
           Inl e \<Rightarrow> Inl e
         | Inr indices \<Rightarrow> Inr (map (drop 1) indices))"

text \<open>
  The loop \<^verbatim>\<open>for i in range(0, num_nodes, BATCH_SIZE_KNN)\<close>, from the batch that starts at
  \<open>i\<close> on; the result is the list \<^verbatim>\<open>indices\<close> of the per-batch tensors. A step of 0
  never reaches the loop: \<^verbatim>\<open>range\<close> rejects it, as \<open>build_knn_hypergraph\<close> below does.
\<close>

function knn_batches :: "nat \<Rightarrow> matrix \<Rightarrow> nat \<Rightarrow> nat \<Rightarrow> error + nat list list list" where
  "knn_batches B x k i =
     (if B = 0 \<or> length x \<le> i then Inr []
      else case knn_batch B x k i of
             Inl e \<Rightarrow> Inl e
           | Inr batch_indices \<Rightarrow>
               (case knn_batches B x k (i + B) of
                  Inl e \<Rightarrow> Inl e
                | Inr rest \<Rightarrow> Inr (batch_indices # rest)))"
  by pat_completeness auto
termination
  by (relation "measure (\<lambda>(B, x, k, i). length x - i)") auto

declare knn_batches.simps [simp del]

text \<open>\<^verbatim>\<open>torch.cat(indices, dim=0)\<close>; an empty list of tensors raises.\<close>

definition cat :: "nat list list list \<Rightarrow> error + nat list list" where
  "cat ts = (if ts = [] then Inl CatEmptyList else Inr (concat ts))"

text \<open>
  Lines 57-63: the two nested loops that write one (node, neighbour) entry per neighbour
  of each node; \<^verbatim>\<open>indices[i]\<close> beyond the rows of \<^verbatim>\<open>indices\<close> raises.
\<close>

fun incidences :: "nat list list \<Rightarrow> nat \<Rightarrow> nat \<Rightarrow> error + (nat list \<times> nat list)" where
  "incidences indices i 0 = Inr ([], [])"
| "incidences indices i (Suc n) =
     (if length indices \<le> i then Inl IndexOutOfRange
      else case incidences indices (Suc i) n of
             Inl e \<Rightarrow> Inl e
           | Inr (node_list, hedge_list) \<Rightarrow>
               Inr (map (\<lambda>j. i) (indices ! i) @ node_list, indices ! i @ hedge_list))"

text \<open>
  The whole function. \<open>B\<close> is the module constant \<^verbatim>\<open>BATCH_SIZE_KNN\<close>; the result is the
  2-row tensor \<^verbatim>\<open>[node_list, hedge_list]\<close>, as the pair of its rows.
\<close>

definition build_knn_hypergraph :: "nat \<Rightarrow> matrix \<Rightarrow> nat \<Rightarrow> error + (nat list \<times> nat list)" where
  "build_knn_hypergraph B x k =
     (let num_nodes = length x in
      if B = 0 then Inl RangeStepZero
      else case knn_batches B x k 0 of
             Inl e \<Rightarrow> Inl e
           | Inr indices \<Rightarrow>
               (case cat indices of
                  Inl e \<Rightarrow> Inl e
                | Inr indices' \<Rightarrow> incidences indices' 0 num_nodes))"

text \<open>The incidence pairs of a result: column \<open>c\<close> of the tensor is the pair of its two entries.\<close>

definition pairs :: "nat list \<times> nat list \<Rightarrow> (nat \<times> nat) list" where
  "pairs t = zip (fst t) (snd t)"

text \<open>
  What lines 45-52 keep for the node with feature row \<open>u\<close>: the best \<open>k + 1\<close> positions of
  its similarity row without the first of them.
\<close>

definition neighbours :: "matrix \<Rightarrow> nat \<Rightarrow> real list \<Rightarrow> nat list" where
  "neighbours x k u = drop 1 (topk_indices (map (\<lambda>v. cosine_similarity u v) x) (k + 1))"

section \<open>The contrastive loss (\<^verbatim>\<open>contrastive_loss\<close>, lines 67-87)\<close>

text \<open>
  Two tensors have the same shape when they have as many rows, of the same lengths. The
  script only ever combines tensors of one shape. The library raises on most pairs of
  different shapes and broadcasts a few (those where a dimension has size one); the model
  covers operands of one shape and reports all others as \<open>ShapeMismatch\<close>.
\<close>

definition same_shape :: "matrix \<Rightarrow> matrix \<Rightarrow> bool" where
  "same_shape a b = (map length a = map length b)"

text \<open>\<^verbatim>\<open>F.normalize(z, dim=1)\<close> with its default \<open>eps = 1e-12\<close>.\<close>

definition normalize_dim1 :: "matrix \<Rightarrow> matrix" where
  "normalize_dim1 z = map (\<lambda>v. map (\<lambda>a. a / max (l2norm v) (1 / 10 ^ 12)) v) z"

text \<open>\<^verbatim>\<open>m.masked_fill(torch.eye(n, dtype=torch.bool), c)\<close>: the diagonal replaced by \<open>c\<close>.\<close>

definition masked_fill_eye :: "matrix \<Rightarrow> real \<Rightarrow> matrix" where
  "masked_fill_eye m c =
     map (\<lambda>(i, row). map (\<lambda>(j, a). if i = j then c else a) (enumerate 0 row)) (enumerate 0 m)"

definition logsumexp :: "real list \<Rightarrow> real" where
  "logsumexp row = ln (sum_list (map exp row))"

definition mean :: "real list \<Rightarrow> real" where
  "mean v = sum_list v / real (length v)"

text \<open>
  The loss of two views of one shape. With no rows the mean of line 86 is \<^verbatim>\<open>nan\<close>, and
  with temperature zero the scores are infinite or \<^verbatim>\<open>nan\<close>.
\<close>

definition contrastive_loss :: "matrix \<Rightarrow> matrix \<Rightarrow> real \<Rightarrow> error + real" where
  "contrastive_loss z1 z2 temperature =
     (if \<not> same_shape z1 z2 then Inl ShapeMismatch
      else if z1 = [] \<or> temperature = 0 then Inl NotFinite
      else
        let z1 = normalize_dim1 z1;
            z2 = normalize_dim1 z2;
            positives = map (\<lambda>(u, v). dot u v / temperature) (zip z1 z2);
            negatives = map (\<lambda>u. map (\<lambda>v. dot u v / temperature) z2) z1;
            negatives = masked_fill_eye negatives (- 9 * 10 ^ 15);
            numerator = positives;
            denominator = map logsumexp negatives;
            loss = - mean (map (\<lambda>(p, d). p - d) (zip numerator denominator))
        in Inr loss)"

section \<open>The encoder (\<^verbatim>\<open>HGCLEncoder\<close>, lines 90-115)\<close>

text \<open>
  An edge list or hyperedge incidence list is a 2-row tensor of indices. The convolutions,
  the layer normalisations and the projection head are layers of the libraries with learned
  weights: each is a function from its input to its output, a field of the encoder.
\<close>

type_synonym edge_index = "nat list \<times> nat list"

record HGCLEncoder =
  gcn1 :: "matrix \<Rightarrow> edge_index \<Rightarrow> matrix"
  gcn2 :: "matrix \<Rightarrow> edge_index \<Rightarrow> matrix"
  hgc1 :: "matrix \<Rightarrow> edge_index \<Rightarrow> matrix"
  hgc2 :: "matrix \<Rightarrow> edge_index \<Rightarrow> matrix"
  project :: "matrix \<Rightarrow> matrix"
  ln1 :: "matrix \<Rightarrow> matrix"
  ln2 :: "matrix \<Rightarrow> matrix"

definition relu :: "matrix \<Rightarrow> matrix" where
  "relu h = map (map (\<lambda>a. max 0 a)) h"

text \<open>The elementwise sum of two tensors of one shape.\<close>

definition add :: "matrix \<Rightarrow> matrix \<Rightarrow> error + matrix" where
  "add a b =
     (if same_shape a b then Inr (map (\<lambda>(u, v). map (\<lambda>(p, q). p + q) (zip u v)) (zip a b))
      else Inl ShapeMismatch)"

definition HGCLEncoder_forward ::
  "HGCLEncoder \<Rightarrow> matrix \<Rightarrow> edge_index \<Rightarrow> edge_index option \<Rightarrow> error + matrix" where
  "HGCLEncoder_forward self x edge_index hyperedge_index =
     (let h1 = relu (ln1 self (gcn1 self x edge_index));
          h1 = relu (ln1 self (gcn2 self h1 edge_index))
      in case hyperedge_index of
           Some hyperedge_index \<Rightarrow>
             (let h2 = relu (ln2 self (hgc1 self x hyperedge_index));
                  h2 = relu (ln2 self (hgc2 self h2 hyperedge_index))
              in case add h1 h2 of
                   Inl e \<Rightarrow> Inl e
                 | Inr s \<Rightarrow> Inr (project self (map (map (\<lambda>a. a / 2)) s)))
         | None \<Rightarrow> Inr (project self h1))"

section \<open>The denoiser (\<^verbatim>\<open>DiffusionDenoiser\<close>, lines 118-137)\<close>

text \<open>The layer normalisation \<^verbatim>\<open>self.ln\<close> is the field \<open>ln_norm\<close>.\<close>

record DiffusionDenoiser =
  time_mlp :: "matrix \<Rightarrow> matrix"
  conv1 :: "matrix \<Rightarrow> edge_index \<Rightarrow> matrix"
  conv2 :: "matrix \<Rightarrow> edge_index \<Rightarrow> matrix"
  ln_norm :: "matrix \<Rightarrow> matrix"

text \<open>\<^verbatim>\<open>t_emb.expand(n, -1)\<close>: a tensor of one row repeated \<open>n\<close> times; \<open>n\<close> rows stay.\<close>

definition expand :: "matrix \<Rightarrow> nat \<Rightarrow> error + matrix" where
  "expand m n =
     (if length m = n then Inr m
      else case m of [row] \<Rightarrow> Inr (replicate n row) | _ \<Rightarrow> Inl ShapeMismatch)"

definition DiffusionDenoiser_forward ::
  "DiffusionDenoiser \<Rightarrow> matrix \<Rightarrow> edge_index \<Rightarrow> real list \<Rightarrow> error + matrix" where
  "DiffusionDenoiser_forward self h_noisy edge_index t =
     (let t = map (\<lambda>a. [a]) t;
          t_emb = time_mlp self t
      in case expand t_emb (length h_noisy) of
           Inl e \<Rightarrow> Inl e
         | Inr t_emb \<Rightarrow>
             (case add h_noisy t_emb of
                Inl e \<Rightarrow> Inl e
              | Inr h \<Rightarrow>
                  (let h = relu (ln_norm self (conv1 self h edge_index))
                   in Inr (conv2 self h edge_index))))"

section \<open>The model (\<^verbatim>\<open>H_GCL\<close>, lines 140-185)\<close>

text \<open>The module constants that the model reads, as one record, and their values in the script.\<close>

record config =
  TEMPERATURE :: real
  MASK_RATIO :: real
  EDGE_DROP_RATIO :: real
  T_DIFFUSION :: nat
  BETA_START :: real
  BETA_END :: real
  GAMMA :: real

definition script_config :: config where
  "script_config =
     \<lparr>TEMPERATURE = 7 / 10, MASK_RATIO = 3 / 10, EDGE_DROP_RATIO = 2 / 10, T_DIFFUSION = 20,
      BETA_START = 1 / 10000, BETA_END = 2 / 100, GAMMA = 8 / 10\<rparr>"

text \<open>
  \<^verbatim>\<open>torch.linspace(a, b, n)\<close> and \<^verbatim>\<open>torch.cumprod(v, dim=0)\<close>, and with them the
  schedule of lines 148-150.
\<close>

definition linspace :: "real \<Rightarrow> real \<Rightarrow> nat \<Rightarrow> real list" where
  "linspace a b n =
     (if n = 1 then [a] else map (\<lambda>i. a + real i * ((b - a) / real (n - 1))) [0..<n])"

fun cumprod_from :: "real \<Rightarrow> real list \<Rightarrow> real list" where
  "cumprod_from p [] = []"
| "cumprod_from p (a # v) = (p * a) # cumprod_from (p * a) v"

definition cumprod :: "real list \<Rightarrow> real list" where
  "cumprod v = cumprod_from 1 v"

record H_GCL =
  encoder_x :: HGCLEncoder
  encoder_y :: HGCLEncoder
  denoiser :: DiffusionDenoiser
  alpha_cum :: "real list"

definition schedule :: "config \<Rightarrow> real list" where
  "schedule cfg =
     (let beta = linspace (BETA_START cfg) (BETA_END cfg) (T_DIFFUSION cfg);
          alpha = map (\<lambda>b. 1 - b) beta
      in cumprod alpha)"

text \<open>
  The constructor (lines 141-150), for the three networks it creates: the schedule is
  computed once, from the constants.
\<close>

definition H_GCL_init :: "config \<Rightarrow> HGCLEncoder \<Rightarrow> HGCLEncoder \<Rightarrow> DiffusionDenoiser \<Rightarrow> H_GCL" where
  "H_GCL_init cfg ex ey d = \<lparr>encoder_x = ex, encoder_y = ey, denoiser = d, alpha_cum = schedule cfg\<rparr>"

text \<open>
  The random draws of one forward pass: the uniform numbers of \<^verbatim>\<open>torch.rand_like\<close> and the
  normal numbers of \<^verbatim>\<open>torch.randn_like\<close> by position, the edge list that
  \<^verbatim>\<open>dropout_edge\<close> returns for an edge list and a probability, and the number that
  \<^verbatim>\<open>random.randint\<close> returns for two bounds.
\<close>

record draws =
  rand_like :: "nat \<Rightarrow> nat \<Rightarrow> real"
  randn_like :: "nat \<Rightarrow> nat \<Rightarrow> real"
  dropout_edge :: "edge_index \<Rightarrow> real \<Rightarrow> edge_index"
  randint :: "int \<Rightarrow> int \<Rightarrow> int"

text \<open>A tensor built entry by entry from a tensor of the same shape.\<close>

definition map_entries :: "(nat \<Rightarrow> nat \<Rightarrow> real \<Rightarrow> real) \<Rightarrow> matrix \<Rightarrow> matrix" where
  "map_entries f m = map (\<lambda>(i, row). map (\<lambda>(j, a). f i j a) (enumerate 0 row)) (enumerate 0 m)"

definition augment :: "config \<Rightarrow> draws \<Rightarrow> matrix \<Rightarrow> edge_index \<Rightarrow> matrix \<times> edge_index" where
  "augment cfg rnd x edge_index =
     (let x_bar = map_entries (\<lambda>i j a. if rand_like rnd i j > MASK_RATIO cfg then a else 0) x;
          edge_index_bar = dropout_edge rnd edge_index (EDGE_DROP_RATIO cfg)
      in (x_bar, edge_index_bar))"

text \<open>Indexing a one-dimensional tensor with a Python integer; negative indices count from the end.\<close>

definition tensor_get :: "real list \<Rightarrow> int \<Rightarrow> error + real" where
  "tensor_get v i =
     (let n = int (length v); j = (if i < 0 then n + i else i)
      in if 0 \<le> j \<and> j < n then Inr (v ! nat j) else Inl IndexOutOfRange)"

definition py_randint :: "draws \<Rightarrow> int \<Rightarrow> int \<Rightarrow> error + int" where
  "py_randint rnd a b = (if b < a then Inl EmptyRange else Inr (randint rnd a b))"

text \<open>
  \<^verbatim>\<open>F.mse_loss(input, target)\<close>: the mean of the squared differences over all entries, for
  tensors of one shape; without entries it is \<^verbatim>\<open>nan\<close>.
\<close>

definition mse_loss :: "matrix \<Rightarrow> matrix \<Rightarrow> error + real" where
  "mse_loss input target =
     (if \<not> same_shape input target then Inl ShapeMismatch
      else if concat input = [] then Inl NotFinite
      else Inr (mean (map (\<lambda>(p, q). (p - q) * (p - q)) (zip (concat input) (concat target)))))"

text \<open>
  The noised embedding of lines 173-176 for the cumulative product \<open>ac\<close> of the drawn step.
\<close>

definition add_noise :: "draws \<Rightarrow> real \<Rightarrow> matrix \<Rightarrow> matrix" where
  "add_noise rnd ac h_x =
     (let sqrt_alpha_cum = sqrt ac;
          sqrt_one_minus = sqrt (1 - ac)
      in map_entries (\<lambda>i j a. sqrt_alpha_cum * a + sqrt_one_minus * randn_like rnd i j) h_x)"

text \<open>
  The forward pass. The square root of a negative number is \<^verbatim>\<open>nan\<close>. The second component
  is \<^verbatim>\<open>h_x.detach()\<close>, which has the values of \<^verbatim>\<open>h_x\<close>.
\<close>

definition H_GCL_forward ::
  "config \<Rightarrow> H_GCL \<Rightarrow> draws \<Rightarrow> matrix \<Rightarrow> edge_index \<Rightarrow> edge_index \<Rightarrow> error + (real \<times> matrix)" where
  "H_GCL_forward cfg self rnd x edge_index hyperedge_index =
     (let (x_bar, edge_index_bar) = augment cfg rnd x edge_index
      in case HGCLEncoder_forward (encoder_x self) x_bar edge_index_bar None of
        Inl e \<Rightarrow> Inl e
      | Inr h_x \<Rightarrow>
     (case HGCLEncoder_forward (encoder_y self) x_bar edge_index_bar (Some hyperedge_index) of
        Inl e \<Rightarrow> Inl e
      | Inr h_y \<Rightarrow>
     (case contrastive_loss h_x h_y (TEMPERATURE cfg) of
        Inl e \<Rightarrow> Inl e
      | Inr loss_c \<Rightarrow>
     (case py_randint rnd 0 (int (T_DIFFUSION cfg) - 1) of
        Inl e \<Rightarrow> Inl e
      | Inr t \<Rightarrow>
     (case tensor_get (alpha_cum self) t of
        Inl e \<Rightarrow> Inl e
      | Inr ac \<Rightarrow>
     (if ac < 0 \<or> 1 < ac then Inl NotFinite
      else
        let h_x_noisy = add_noise rnd ac h_x;
            t_tensor = [real_of_int t / real (T_DIFFUSION cfg)]
        in case DiffusionDenoiser_forward (denoiser self) h_x_noisy edge_index_bar t_tensor of
             Inl e \<Rightarrow> Inl e
           | Inr h_x_hat \<Rightarrow>
        (case mse_loss h_x_hat h_x of
           Inl e \<Rightarrow> Inl e
         | Inr loss_g \<Rightarrow>
             (let loss = GAMMA cfg * loss_c + (1 - GAMMA cfg) * loss_g
              in Inr (loss, h_x)))))))))"

section \<open>The training script (lines 244-328)\<close>

text \<open>
  \<^verbatim>\<open>loss.item()\<close> and \<^verbatim>\<open>best_loss\<close> are Python floats, which the script only compares:
  a real number, an infinity or \<^verbatim>\<open>nan\<close>, with the order of \<^verbatim>\<open><\<close> on floats.
\<close>

datatype pyfloat = Fin real | PInf | NInf | NaN

fun float_less :: "pyfloat \<Rightarrow> pyfloat \<Rightarrow> bool" where
  "float_less (Fin a) (Fin b) = (a < b)"
| "float_less (Fin a) PInf = True"
| "float_less NInf (Fin b) = True"
| "float_less NInf PInf = True"
| "float_less _ _ = False"

datatype mask = train_mask | val_mask | test_mask

text \<open>
  What the script calls and does not define, for a state \<open>'s\<close> of the model, the optimizer,
  the scheduler and the random generators, and a type \<open>'e\<close> of embeddings:
  \<^item> \<open>train_step\<close>: lines 270-275, the forward pass in training mode, the backward pass and
    the optimizer step; it gives \<^verbatim>\<open>loss.item()\<close>;
  \<^item> \<open>eval_step\<close>: lines 278-282, the forward pass in evaluation mode; it gives \<^verbatim>\<open>val_emb\<close>;
  \<^item> \<open>evaluate\<close>: the linear probe of lines 233-240 on the fixed data set, an accuracy;
  \<^item> \<open>scheduler_step\<close>: lines 286-292;
  \<^item> the constants \<^verbatim>\<open>NUM_EPOCHS\<close> and \<^verbatim>\<open>PATIENCE\<close>.
\<close>

record ('s, 'e) script =
  NUM_EPOCHS :: nat
  PATIENCE :: nat
  train_step :: "'s \<Rightarrow> error + (pyfloat \<times> 's)"
  eval_step :: "'s \<Rightarrow> error + ('e \<times> 's)"
  evaluate :: "'e \<Rightarrow> mask \<Rightarrow> error + real"
  scheduler_step :: "'s \<Rightarrow> real \<Rightarrow> 's"

text \<open>
  The variables of the script. \<open>val_emb\<close> is unset until the first epoch has computed it;
  \<open>epoch\<close> is the loop variable, 0 before the loop; \<open>early_stop\<close> says that the \<^verbatim>\<open>break\<close>
  of line 316 was taken.
\<close>

record ('s, 'e) vars =
  sys :: 's
  best_val_acc :: real
  best_emb :: "'e option"
  patience_counter :: nat
  test_acc :: real
  best_loss :: pyfloat
  epoch :: nat
  val_emb :: "'e option"
  early_stop :: bool

definition initial_vars :: "'s \<Rightarrow> ('s, 'e) vars" where
  "initial_vars s =
     \<lparr>sys = s, best_val_acc = 0, best_emb = None, patience_counter = 0, test_acc = 0,
      best_loss = PInf, epoch = 0, val_emb = None, early_stop = False\<rparr>"

text \<open>Lines 294-308, for the loss, the validation embedding and its accuracy of this epoch.\<close>

definition track_best ::
  "('s, 'e) script \<Rightarrow> pyfloat \<Rightarrow> 'e \<Rightarrow> real \<Rightarrow> ('s, 'e) vars \<Rightarrow> error + ('s, 'e) vars" where
  "track_best E loss v_emb val_acc st =
     (if val_acc > best_val_acc st then
        (case evaluate E v_emb test_mask of
           Inl e \<Rightarrow> Inl e
         | Inr acc \<Rightarrow>
             Inr (st\<lparr>best_val_acc := val_acc, best_emb := Some v_emb, patience_counter := 0,
                      test_acc := acc, best_loss := loss\<rparr>))
      else if val_acc = best_val_acc st \<and> float_less loss (best_loss st) then
        (case evaluate E v_emb test_mask of
           Inl e \<Rightarrow> Inl e
         | Inr acc \<Rightarrow>
             Inr (st\<lparr>best_emb := Some v_emb, test_acc := acc, best_loss := loss,
                      patience_counter := 0\<rparr>))
      else Inr (st\<lparr>patience_counter := patience_counter st + 1\<rparr>))"

text \<open>
  Lines 270-292 of one epoch: what the epoch observes (loss, validation embedding,
  validation accuracy) and the state of the model after it.
\<close>

definition observe ::
  "('s, 'e) script \<Rightarrow> 's \<Rightarrow> error + ((pyfloat \<times> 'e \<times> real) \<times> 's)" where
  "observe E s =
     (case train_step E s of
        Inl e \<Rightarrow> Inl e
      | Inr (loss, s1) \<Rightarrow>
     (case eval_step E s1 of
        Inl e \<Rightarrow> Inl e
      | Inr (v_emb, s2) \<Rightarrow>
     (case evaluate E v_emb val_mask of
        Inl e \<Rightarrow> Inl e
      | Inr val_acc \<Rightarrow> Inr ((loss, v_emb, val_acc), scheduler_step E s2 val_acc))))"

text \<open>The body of the loop for epoch \<open>n\<close>, up to the test of line 314.\<close>

definition train_epoch ::
  "('s, 'e) script \<Rightarrow> nat \<Rightarrow> ('s, 'e) vars \<Rightarrow> error + ('s, 'e) vars" where
  "train_epoch E n st =
     (case observe E (sys st) of
        Inl e \<Rightarrow> Inl e
      | Inr ((loss, v_emb, val_acc), s) \<Rightarrow>
          track_best E loss v_emb val_acc (st\<lparr>sys := s, epoch := n, val_emb := Some v_emb\<rparr>))"

text \<open>The loop \<^verbatim>\<open>for epoch in range(1, NUM_EPOCHS + 1)\<close> from epoch \<open>n\<close> on.\<close>

function train_loop ::
  "('s, 'e) script \<Rightarrow> nat \<Rightarrow> ('s, 'e) vars \<Rightarrow> error + ('s, 'e) vars" where
  "train_loop E n st =
     (if NUM_EPOCHS E < n then Inr st
      else case train_epoch E n st of
             Inl e \<Rightarrow> Inl e
           | Inr st' \<Rightarrow>
               if patience_counter st' \<ge> PATIENCE E then Inr (st'\<lparr>early_stop := True\<rparr>)
               else train_loop E (Suc n) st')"
  by pat_completeness auto
termination
  by (relation "measure (\<lambda>(E, n, st). Suc (NUM_EPOCHS E) - n)") auto

declare train_loop.simps [simp del]

text \<open>
  The script from line 262 on, for the initial state \<open>s\<close> of the model: the loop, and the
  fallback of lines 319-321. The \<open>best_emb\<close> of the result is what line 327 saves.
\<close>

definition run :: "('s, 'e) script \<Rightarrow> 's \<Rightarrow> error + ('s, 'e) vars" where
  "run E s =
     (case train_loop E 1 (initial_vars s) of
        Inl e \<Rightarrow> Inl e
      | Inr st \<Rightarrow>
          (case best_emb st of
             Some b \<Rightarrow> Inr st
           | None \<Rightarrow>
               (case val_emb st of
                  None \<Rightarrow> Inl NameUndefined
                | Some v \<Rightarrow>
                    (case evaluate E v test_mask of
                       Inl e \<Rightarrow> Inl e
                     | Inr acc \<Rightarrow> Inr (st\<lparr>best_emb := Some v, test_acc := acc\<rparr>)))))"

text \<open>
  The model state after \<open>n\<close> epochs, and the validation embedding that epoch \<open>n\<close> computes
  (there is none for \<open>n = 0\<close>); neither depends on the bookkeeping of lines 294-316.
\<close>

fun sys_after :: "('s, 'e) script \<Rightarrow> 's \<Rightarrow> nat \<Rightarrow> error + 's" where
  "sys_after E s 0 = Inr s"
| "sys_after E s (Suc n) =
     (case sys_after E s n of
        Inl e \<Rightarrow> Inl e
      | Inr s' \<Rightarrow> (case observe E s' of Inl e \<Rightarrow> Inl e | Inr (ob, s'') \<Rightarrow> Inr s''))"

fun val_emb_of_epoch :: "('s, 'e) script \<Rightarrow> 's \<Rightarrow> nat \<Rightarrow> 'e option" where
  "val_emb_of_epoch E s 0 = None"
| "val_emb_of_epoch E s (Suc n) =
     (case sys_after E s n of
        Inl e \<Rightarrow> None
      | Inr s' \<Rightarrow> (case observe E s' of Inl e \<Rightarrow> None | Inr ((loss, v_emb, val_acc), s'') \<Rightarrow> Some v_emb))"

text \<open>
  The condition under which lines 295-306 record a new best state: the test of line 295
  or the test of line 301.
\<close>

definition improves :: "pyfloat \<Rightarrow> real \<Rightarrow> ('s, 'e) vars \<Rightarrow> bool" where
  "improves loss val_acc st \<longleftrightarrow>
     val_acc > best_val_acc st \<or> (val_acc = best_val_acc st \<and> float_less loss (best_loss st))"

section \<open>The script with the model of lines 140-185\<close>

text \<open>
  In the script the two forward passes of an epoch are calls of \<^verbatim>\<open>H_GCL.forward\<close> on the data
  set, with the weights and the random generators in their current state. For a state
  \<open>'s\<close>, a trainer says which model and which draws a forward pass in that state has, and
  what the state is after the optimizer step of line 275 and after the forward pass of
  line 280. \<^verbatim>\<open>loss.item()\<close> is the loss of the training pass, and \<^verbatim>\<open>val_emb\<close> is the second
  component of the evaluation pass.
\<close>

record 's trainer =
  model_of :: "'s \<Rightarrow> H_GCL"
  draws_of :: "'s \<Rightarrow> draws"
  optimizer_step :: "'s \<Rightarrow> 's"
  after_forward :: "'s \<Rightarrow> 's"

definition H_GCL_script ::
  "config \<Rightarrow> 's trainer \<Rightarrow> matrix \<Rightarrow> edge_index \<Rightarrow> edge_index \<Rightarrow>
   (matrix \<Rightarrow> mask \<Rightarrow> error + real) \<Rightarrow> ('s \<Rightarrow> real \<Rightarrow> 's) \<Rightarrow> nat \<Rightarrow> nat \<Rightarrow> ('s, matrix) script" where
  "H_GCL_script cfg tr x edge_index hyperedge_index ev sched n p =
     \<lparr>NUM_EPOCHS = n, PATIENCE = p,
      train_step = (\<lambda>s.
        case H_GCL_forward cfg (model_of tr s) (draws_of tr s) x edge_index hyperedge_index of
          Inl e \<Rightarrow> Inl e
        | Inr (loss, emb) \<Rightarrow> Inr (Fin loss, optimizer_step tr s)),
      eval_step = (\<lambda>s.
        case H_GCL_forward cfg (model_of tr s) (draws_of tr s) x edge_index hyperedge_index of
          Inl e \<Rightarrow> Inl e
        | Inr (loss, v_emb) \<Rightarrow> Inr (v_emb, after_forward tr s)),
      evaluate = ev, scheduler_step = sched\<rparr>"

section \<open>Concrete inputs\<close>

text \<open>
  Small networks, draws and scripts on which the functions above are evaluated below.
  The layers of \<open>demo_encoder c\<close> return their input, except that the first hypergraph
  convolution multiplies it by \<open>c\<close>. The last convolution of \<open>demo_denoiser c\<close> fills its
  output with \<open>c\<close> times the number of edges it is given. \<open>demo_draws\<close> masks no feature,
  adds no noise, drops the last edge and draws the lower bound.
\<close>

definition demo_encoder :: "real \<Rightarrow> HGCLEncoder" where
  "demo_encoder c =
     \<lparr>gcn1 = (\<lambda>m e. m), gcn2 = (\<lambda>m e. m),
      hgc1 = (\<lambda>m e. map (map (\<lambda>a. c * a)) m), hgc2 = (\<lambda>m e. m),
      project = (\<lambda>m. m), ln1 = (\<lambda>m. m), ln2 = (\<lambda>m. m)\<rparr>"

definition demo_denoiser :: "real \<Rightarrow> DiffusionDenoiser" where
  "demo_denoiser c =
     \<lparr>time_mlp = (\<lambda>t. map (\<lambda>r. r @ r) t), conv1 = (\<lambda>h e. h),
      conv2 = (\<lambda>h e. map (map (\<lambda>a. c * real (length (fst e)))) h), ln_norm = (\<lambda>m. m)\<rparr>"

definition demo_draws :: draws where
  "demo_draws =
     \<lparr>rand_like = (\<lambda>i j. 1 / 2), randn_like = (\<lambda>i j. 0),
      dropout_edge = (\<lambda>e p. (butlast (fst e), butlast (snd e))), randint = (\<lambda>a b. a)\<rparr>"

definition demo_model :: "real \<Rightarrow> H_GCL" where
  "demo_model c = H_GCL_init script_config (demo_encoder 3) (demo_encoder 3) (demo_denoiser c)"

definition gamma_one :: config where
  "gamma_one = script_config\<lparr>GAMMA := 1\<rparr>"

text \<open>A trainer whose state counts the passes and whose model and draws stay as they are.\<close>

definition demo_trainer :: "nat trainer" where
  "demo_trainer =
     \<lparr>model_of = (\<lambda>s. demo_model 1), draws_of = (\<lambda>s. demo_draws),
      optimizer_step = Suc, after_forward = Suc\<rparr>"

text \<open>
  A script whose epoch \<open>n\<close> has loss \<open>n\<close>, validation embedding \<open>n\<close> and validation
  accuracy 1/2; and the script with the constants of \<^verbatim>\<open>hgcl.py\<close> whose loss has overflowed
  and whose validation accuracy is 0 in every epoch.
\<close>

definition demo_script :: "nat \<Rightarrow> nat \<Rightarrow> (nat, nat) script" where
  "demo_script P N =
     \<lparr>NUM_EPOCHS = N, PATIENCE = P,
      train_step = (\<lambda>s. Inr (Fin (real s + 1), Suc s)),
      eval_step = (\<lambda>s. Inr (s, s)),
      evaluate = (\<lambda>e m. Inr (if m = val_mask then 1 / 2 else 1 / 4)),
      scheduler_step = (\<lambda>s a. s)\<rparr>"

definition diverged_script :: "(nat, nat) script" where
  "diverged_script =
     \<lparr>NUM_EPOCHS = 500, PATIENCE = 30,
      train_step = (\<lambda>s. Inr (PInf, Suc s)),
      eval_step = (\<lambda>s. Inr (s, s)),
      evaluate = (\<lambda>e m. Inr 0),
      scheduler_step = (\<lambda>s a. s)\<rparr>"

section \<open>Properties of the hypergraph builder\<close>

lemma length_topk_indices: "length (topk_indices row k) = min k (length row)"
  by (simp add: topk_indices_def min_def)

lemma length_neighbours: "k < length x \<Longrightarrow> length (neighbours x k u) = k"
  by (simp add: neighbours_def length_topk_indices)

lemma knn_batch_ok:
  "k < length x \<Longrightarrow> knn_batch B x k i = Inr (map (neighbours x k) (take B (drop i x)))"
  by (auto simp: knn_batch_def topk_def neighbours_def Let_def)

lemma knn_batch_err:
  assumes "length x \<le> k" "0 < B" "i < length x"
  shows "knn_batch B x k i = Inl TopkOutOfRange"
proof -
  from assms have "take B (drop i x) \<noteq> []" by simp
  then obtain u where "u \<in> set (take B (drop i x))"
    by (cases "take B (drop i x)") auto
  then have "\<exists>row \<in> set (map (\<lambda>u. map (\<lambda>v. cosine_similarity u v) x) (take B (drop i x))).
           length row < k + 1"
    using assms(1) by (intro bexI [of _ "map (\<lambda>v. cosine_similarity u v) x"]) auto
  then show ?thesis
    unfolding knn_batch_def topk_def Let_def by (simp only: if_True sum.case)
qed

text \<open>
  The batches of the loop, put one after the other, are the neighbour lists of the rows
  from \<open>i\<close> on, whatever the batch size.
\<close>

lemma knn_batches_ok:
  "k < length x \<Longrightarrow> 0 < B \<Longrightarrow>
   \<exists>bs. knn_batches B x k i = Inr bs \<and> concat bs = map (neighbours x k) (drop i x)
        \<and> (bs = [] \<longleftrightarrow> length x \<le> i)"
proof (induction B x k i rule: knn_batches.induct)
  case (1 B x k i)
  show ?case
  proof (cases "length x \<le> i")
    case True
    then show ?thesis by (simp add: knn_batches.simps)
  next
    case False
    from "1.prems" have kb: "knn_batch B x k i = Inr (map (neighbours x k) (take B (drop i x)))"
      by (simp add: knn_batch_ok)
    from "1.IH" [OF _ kb] False "1.prems" obtain rest where
      r: "knn_batches B x k (i + B) = Inr rest"
         "concat rest = map (neighbours x k) (drop (i + B) x)"
      by auto
    have "map (neighbours x k) (take B (drop i x)) @ map (neighbours x k) (drop (i + B) x)
          = map (neighbours x k) (take B (drop i x) @ drop B (drop i x))"
      by (simp add: add.commute)
    also have "\<dots> = map (neighbours x k) (drop i x)"
      by (simp only: append_take_drop_id)
    finally show ?thesis
      using False "1.prems" kb r by (simp add: knn_batches.simps [of B x k i])
  qed
qed

lemma knn_batches_err:
  "length x \<le> k \<Longrightarrow> 0 < B \<Longrightarrow> i < length x \<Longrightarrow> knn_batches B x k i = Inl TopkOutOfRange"
  by (simp add: knn_batches.simps [of B x k i] knn_batch_err)

lemma incidences_eq:
  "i + n \<le> length ind \<Longrightarrow>
   incidences ind i n =
     Inr (concat (map (\<lambda>j. map (\<lambda>_. j) (ind ! j)) [i..<i + n]), concat (map (\<lambda>j. ind ! j) [i..<i + n]))"
proof (induction n arbitrary: i)
  case 0
  then show ?case by simp
next
  case (Suc n)
  from Suc.prems have "Suc i + n \<le> length ind" by simp
  moreover have "[i..<i + Suc n] = i # [Suc i..<Suc i + n]"
    by (simp add: upt_conv_Cons)
  ultimately show ?case
    using Suc.IH [of "Suc i"] Suc.prems by simp
qed

text \<open>The result of the builder in closed form, with each of its three ways to fail.\<close>

lemma build_knn_hypergraph_eq:
  "build_knn_hypergraph B x k =
     (if B = 0 then Inl RangeStepZero
      else if x = [] then Inl CatEmptyList
      else if length x \<le> k then Inl TopkOutOfRange
      else Inr (concat (map (\<lambda>j. replicate k j) [0..<length x]),
                concat (map (neighbours x k) x)))"
proof -
  consider "B = 0" | "B \<noteq> 0" "x = []" | "B \<noteq> 0" "x \<noteq> []" "length x \<le> k"
    | "B \<noteq> 0" "k < length x"
    by fastforce
  then show ?thesis
  proof cases
    case 1
    then show ?thesis by (simp add: build_knn_hypergraph_def)
  next
    case 2
    then show ?thesis by (simp add: build_knn_hypergraph_def knn_batches.simps cat_def)
  next
    case 3
    then have "knn_batches B x k 0 = Inl TopkOutOfRange"
      by (simp add: knn_batches_err)
    with 3 show ?thesis by (simp add: build_knn_hypergraph_def)
  next
    case 4
    then have ne: "x \<noteq> []" by auto
    from 4 obtain bs where bs: "knn_batches B x k 0 = Inr bs"
      "concat bs = map (neighbours x k) x" "bs \<noteq> []"
      using knn_batches_ok [of k x B 0] by auto
    let ?ind = "map (neighbours x k) x"
    have inc: "incidences ?ind 0 (length x) =
       Inr (concat (map (\<lambda>j. map (\<lambda>_. j) (?ind ! j)) [0..<length x]),
            concat (map (\<lambda>j. ?ind ! j) [0..<length x]))"
      using incidences_eq [of 0 "length x" ?ind] by simp
    have a: "map (\<lambda>j. map (\<lambda>_. j) (?ind ! j)) [0..<length x] = map (\<lambda>j. replicate k j) [0..<length x]"
      using 4 by (auto simp: length_neighbours map_replicate_const)
    have b: "map (\<lambda>j. ?ind ! j) [0..<length x] = ?ind"
      using map_nth [of ?ind] by simp
    from 4 ne bs inc a b show ?thesis
      by (simp add: build_knn_hypergraph_def cat_def)
  qed
qed

lemma length_concat_const:
  "(\<And>r. r \<in> set rs \<Longrightarrow> length r = k) \<Longrightarrow> length (concat rs) = length rs * k"
  by (induction rs) auto

text \<open>For \<open>k < N\<close> the builder returns \<open>N * k\<close> incidence pairs.\<close>

lemma build_knn_hypergraph_count:
  assumes "0 < B" "k < length x"
  shows "\<exists>t. build_knn_hypergraph B x k = Inr t \<and> length (fst t) = length x * k
            \<and> length (snd t) = length x * k \<and> length (pairs t) = length x * k"
proof -
  have "length (concat (map (\<lambda>j. replicate k j) [0..<length x])) = length x * k"
    by (subst length_concat_const [of _ k]) auto
  moreover have "length (concat (map (neighbours x k) x)) = length x * k"
    using assms(2) by (subst length_concat_const [of _ k]) (auto simp: length_neighbours)
  ultimately show ?thesis
    using assms by (auto simp: build_knn_hypergraph_eq pairs_def)
qed

lemmas knn_eval = build_knn_hypergraph_def knn_batches.simps knn_batch_def topk_def
  topk_indices_def cosine_similarity_def dot_def l2norm_def cat_def upt_conv_Cons
  numeral_3_eq_3 pairs_def

text \<open>
  Claim C1. The builder is to return \<open>N * k\<close> pairs, none of which pairs a node with itself,
  also when ties make the best match of a row differ from the row itself. On three nodes of
  which the first two have the same features, with \<open>k = 1\<close> and the batch size of the
  script, the builder returns the three pairs (0, 1), (1, 1), (2, 0): rows 0 and 1 have the
  same similarities (1, 1, 0), so the same two best positions in the same order, and
  dropping the first of them leaves node 1 paired with itself.
\<close>

theorem build_knn_hypergraph_self_pair:
  "build_knn_hypergraph 512 [[1, 0], [1, 0], [0, 1]] 1 = Inr ([0, 1, 2], [1, 1, 0])
   \<and> pairs ([0, 1, 2], [1, 1, 0]) = [(0, 1), (1, 1), (2, 0)]"
  by (simp add: knn_eval)

text \<open>
  Claim C5. The incidence list that the builder returns is the same for every batch size:
  for all feature matrices and all \<open>k\<close>, two positive batch sizes give the same result
  (the same tensor, or the same error).
\<close>

theorem build_knn_hypergraph_batch_invariant:
  "0 < B \<Longrightarrow> 0 < B' \<Longrightarrow> build_knn_hypergraph B x k = build_knn_hypergraph B' x k"
  by (simp add: build_knn_hypergraph_eq)

theorem build_knn_hypergraph_batch_invariant_witness:
  "(0::nat) < 1 \<and> (0::nat) < 512
   \<and> build_knn_hypergraph 1 [[1, 0], [3, 4], [0, 1]] 2 = build_knn_hypergraph 512 [[1, 0], [3, 4], [0, 1]] 2
   \<and> build_knn_hypergraph 512 [[1, 0], [3, 4], [0, 1]] 2 = Inr ([0, 0, 1, 1, 2, 2], [1, 2, 2, 0, 1, 0])"
proof -
  have "build_knn_hypergraph 1 [[1, 0], [3, 4], [0, 1]] 2 = build_knn_hypergraph 512 [[1, 0], [3, 4], [0, 1]] 2"
    using build_knn_hypergraph_batch_invariant [of 1 512 "[[1, 0], [3, 4], [0, 1]]" 2] by simp
  moreover have "sqrt 25 = 5"
    using real_sqrt_abs [of 5] by simp
  then have "build_knn_hypergraph 512 [[1, 0], [3, 4], [0, 1]] 2 = Inr ([0, 0, 1, 1, 2, 2], [1, 2, 2, 0, 1, 0])"
    by (simp add: knn_eval)
  ultimately show ?thesis by simp
qed

text \<open>
  Claim C6. With \<open>k \<ge> N\<close> the builder fails with an error instead of returning a shorter
  neighbour list: the error of \<^verbatim>\<open>torch.topk\<close>, which is asked for \<open>k + 1\<close> of \<open>N\<close> entries
  (for a matrix without rows, the error of \<^verbatim>\<open>torch.cat\<close>; for batch size 0, that of
  \<^verbatim>\<open>range\<close>).
\<close>

theorem build_knn_hypergraph_too_few_nodes:
  "length x \<le> k \<Longrightarrow>
   build_knn_hypergraph B x k =
     Inl (if B = 0 then RangeStepZero else if x = [] then CatEmptyList else TopkOutOfRange)"
  by (simp add: build_knn_hypergraph_eq)

theorem build_knn_hypergraph_too_few_nodes_witness:
  "length [[1, 0], [1, 0], [0, 1 :: real]] \<le> (3::nat)
   \<and> build_knn_hypergraph 512 [[1, 0], [1, 0], [0, 1]] 3 = Inl TopkOutOfRange"
  using build_knn_hypergraph_too_few_nodes [of "[[1, 0], [1, 0], [0, 1]]" 3 512] by simp

section \<open>Properties of the contrastive loss\<close>

lemmas cl_eval = contrastive_loss_def same_shape_def normalize_dim1_def masked_fill_eye_def
  logsumexp_def mean_def dot_def l2norm_def Let_def enumerate_eq_zip upt_conv_Cons

lemma dot_commute: "dot u v = dot v u"
proof -
  have "map (\<lambda>(a, b). a * b) (zip u v) = map (\<lambda>(a, b). a * b) (zip v u)"
    by (induction u arbitrary: v) (auto simp: zip_Cons1 mult.commute split: list.splits)
  then show ?thesis by (simp add: dot_def)
qed

lemma same_shape_sym: "same_shape a b = same_shape b a"
  by (auto simp: same_shape_def)

lemma same_shape_length: "same_shape a b \<Longrightarrow> length a = length b"
  unfolding same_shape_def by (rule map_eq_imp_length_eq)

lemma length_normalize_dim1 [simp]: "length (normalize_dim1 z) = length z"
  by (simp add: normalize_dim1_def)

text \<open>
  Claim C4, as amended. Swapping the two views leaves the loss unchanged whenever the matrix
  of the dot products between the normalised rows of the first view and those of the
  second is symmetric (as it is when both views are equal). The positive scores are the
  same in both orders; the log-sum-exp runs over the rows of that matrix in one order and
  over its columns in the other.
\<close>

theorem contrastive_loss_swap:
  assumes sym: "\<forall>i < length z1. \<forall>j < length z1.
     dot (normalize_dim1 z1 ! i) (normalize_dim1 z2 ! j) = dot (normalize_dim1 z1 ! j) (normalize_dim1 z2 ! i)"
  shows "contrastive_loss z1 z2 temperature = contrastive_loss z2 z1 temperature"
proof (cases "same_shape z1 z2")
  case False
  then show ?thesis by (simp add: contrastive_loss_def same_shape_sym)
next
  case True
  then have len: "length z1 = length z2" by (rule same_shape_length)
  let ?a = "normalize_dim1 z1" and ?b = "normalize_dim1 z2"
  have pos: "map (\<lambda>(u, v). dot u v / temperature) (zip ?a ?b)
           = map (\<lambda>(u, v). dot u v / temperature) (zip ?b ?a)"
    using len by (rule_tac nth_equalityI) (simp_all add: dot_commute)
  have neg: "map (\<lambda>u. map (\<lambda>v. dot u v / temperature) ?b) ?a
           = map (\<lambda>u. map (\<lambda>v. dot u v / temperature) ?a) ?b"
  proof (rule nth_equalityI)
    show "length (map (\<lambda>u. map (\<lambda>v. dot u v / temperature) ?b) ?a)
        = length (map (\<lambda>u. map (\<lambda>v. dot u v / temperature) ?a) ?b)"
      using len by simp
  next
    fix i assume "i < length (map (\<lambda>u. map (\<lambda>v. dot u v / temperature) ?b) ?a)"
    then have i: "i < length z1" by simp
    show "map (\<lambda>u. map (\<lambda>v. dot u v / temperature) ?b) ?a ! i
        = map (\<lambda>u. map (\<lambda>v. dot u v / temperature) ?a) ?b ! i"
    proof (rule nth_equalityI)
      show "length (map (\<lambda>u. map (\<lambda>v. dot u v / temperature) ?b) ?a ! i)
          = length (map (\<lambda>u. map (\<lambda>v. dot u v / temperature) ?a) ?b ! i)"
        using i len by simp
    next
      fix j assume "j < length (map (\<lambda>u. map (\<lambda>v. dot u v / temperature) ?b) ?a ! i)"
      with i len have j: "j < length z1" by simp
      from sym i j have "dot (?a ! i) (?b ! j) = dot (?a ! j) (?b ! i)" by blast
      also have "\<dots> = dot (?b ! i) (?a ! j)" by (rule dot_commute)
      finally show "map (\<lambda>u. map (\<lambda>v. dot u v / temperature) ?b) ?a ! i ! j
          = map (\<lambda>u. map (\<lambda>v. dot u v / temperature) ?a) ?b ! i ! j"
        using i j len by simp
    qed
  qed
  from True len have e: "(z1 = []) = (z2 = [])" by auto
  show ?thesis
    unfolding contrastive_loss_def Let_def
    using True e by (simp add: same_shape_sym pos neg)
qed

theorem contrastive_loss_swap_witness:
  "map (\<lambda>u. map (\<lambda>v. dot u v) (normalize_dim1 [[0, 1], [1, 0], [0, 1]]))
       (normalize_dim1 [[1, 0], [0, 1], [1, 0]])
     = [[0, 1, 0], [1, 0, 1], [0, 1, 0]]
   \<and> contrastive_loss [[1, 0], [0, 1], [1, 0]] [[0, 1], [1, 0], [0, 1]] (7 / 10)
     = contrastive_loss [[0, 1], [1, 0], [0, 1]] [[1, 0], [0, 1], [1, 0]] (7 / 10)"
proof -
  have h: "\<forall>i < length [[1, 0], [0, 1], [1, 0 :: real]]. \<forall>j < length [[1, 0], [0, 1], [1, 0 :: real]].
      dot (normalize_dim1 [[1, 0], [0, 1], [1, 0]] ! i) (normalize_dim1 [[0, 1], [1, 0], [0, 1]] ! j)
    = dot (normalize_dim1 [[1, 0], [0, 1], [1, 0]] ! j) (normalize_dim1 [[0, 1], [1, 0], [0, 1]] ! i)"
    by (simp add: normalize_dim1_def dot_def l2norm_def All_less_Suc)
  have m: "map (\<lambda>u. map (\<lambda>v. dot u v) (normalize_dim1 [[0, 1], [1, 0], [0, 1]]))
       (normalize_dim1 [[1, 0], [0, 1], [1, 0]])
     = [[0, 1, 0], [1, 0, 1], [0, 1, 0]]"
    by (simp add: normalize_dim1_def dot_def l2norm_def)
  from contrastive_loss_swap [OF h] m show ?thesis by blast
qed

text \<open>
  Claim C4, as stated, fails: for three nodes with the unit rows below and the temperature
  0.7 of the script, the two orders give different losses. The dot products of row \<open>i\<close> of
  the first view with row \<open>j\<close> of the second are 1, 1, 1 for \<open>i = 0\<close> and 0 otherwise, so
  the row sums of the exponentials differ from the column sums.
\<close>

theorem contrastive_loss_not_symmetric:
  "contrastive_loss [[1, 0], [0, 1], [0, 1]] [[1, 0], [1, 0], [1, 0]] (7 / 10)
   \<noteq> contrastive_loss [[1, 0], [1, 0], [1, 0]] [[1, 0], [0, 1], [0, 1]] (7 / 10)"
proof -
  define a :: real where "a = exp (10 / 7)"
  define d :: real where "d = exp (- 9000000000000000)"
  have a1: "1 < a" unfolding a_def by simp
  have d0: "0 < d" unfolding d_def by simp
  have l12: "contrastive_loss [[1, 0], [0, 1], [0, 1]] [[1, 0], [1, 0], [1, 0]] (7 / 10)
     = Inr (- ((10 / 7 - ln (d + 2 * a) - 2 * ln (2 + d)) / 3))"
    by (simp add: cl_eval a_def d_def)
  have l21: "contrastive_loss [[1, 0], [1, 0], [1, 0]] [[1, 0], [0, 1], [0, 1]] (7 / 10)
     = Inr (- ((10 / 7 - ln (d + 2) - 2 * ln (a + 1 + d)) / 3))"
    by (simp add: cl_eval a_def d_def ac_simps)
  have "ln (d + 2 * a) + 2 * ln (2 + d) \<noteq> ln (d + 2) + 2 * ln (a + 1 + d)"
  proof
    assume eq: "ln (d + 2 * a) + 2 * ln (2 + d) = ln (d + 2) + 2 * ln (a + 1 + d)"
    have p1: "0 < d + 2 * a" and p2: "0 < 2 + d" and p3: "0 < a + 1 + d"
      using a1 d0 by simp_all
    have "ln ((d + 2 * a) * (2 + d)) = ln (d + 2 * a) + ln (2 + d)"
      using p1 p2 by (rule ln_mult_pos)
    also have "\<dots> = 2 * ln (a + 1 + d)"
      using eq by (simp add: add.commute)
    also have "\<dots> = ln ((a + 1 + d) * (a + 1 + d))"
      using ln_mult_pos [OF p3 p3] by simp
    finally have "ln ((d + 2 * a) * (2 + d)) = ln ((a + 1 + d) * (a + 1 + d))" .
    moreover have "0 < (d + 2 * a) * (2 + d)" "0 < (a + 1 + d) * (a + 1 + d)"
      using p1 p2 p3 by (simp_all only: mult_pos_pos)
    ultimately have "(d + 2 * a) * (2 + d) = (a + 1 + d) * (a + 1 + d)"
      by (simp only: ln_inj_iff)
    then have "(a - 1) * (a - 1) = 0"
      by (simp add: algebra_simps)
    with a1 show False by simp
  qed
  with l12 l21 show ?thesis by simp
qed

section \<open>Properties of the encoder\<close>

lemma same_shape_row: "same_shape a b \<Longrightarrow> i < length a \<Longrightarrow> length (a ! i) = length (b ! i)"
proof -
  assume s: "same_shape a b" and i: "i < length a"
  then have "map length a ! i = map length b ! i" by (simp add: same_shape_def)
  with i same_shape_length [OF s] show ?thesis by simp
qed

lemma average_entries:
  assumes "same_shape a b"
  shows "\<exists>s. add a b = Inr s \<and> same_shape (map (map (\<lambda>a. a / 2)) s) a
     \<and> (\<forall>i < length a. \<forall>j < length (a ! i).
          map (map (\<lambda>a. a / 2)) s ! i ! j = (a ! i ! j + b ! i ! j) / 2)"
proof -
  let ?s = "map (\<lambda>(u, v). map (\<lambda>(p, q). p + q) (zip u v)) (zip a b)"
  have len: "length a = length b" using assms by (rule same_shape_length)
  have row: "length (a ! i) = length (b ! i)" if "i < length a" for i
    using assms that by (rule same_shape_row)
  have "same_shape (map (map (\<lambda>a. a / 2)) ?s) a"
    unfolding same_shape_def using len row by (intro nth_equalityI) simp_all
  moreover have "map (map (\<lambda>a. a / 2)) ?s ! i ! j = (a ! i ! j + b ! i ! j) / 2"
    if "i < length a" "j < length (a ! i)" for i j
    using that len row [OF that(1)] by simp
  ultimately show ?thesis using assms by (simp add: add_def)
qed

text \<open>
  Claim C9. The graph-view path, two graph convolutions each followed by the layer
  normalisation and the rectifier, is part of every result. Without a hyperedge incidence
  list the projection head is applied to the graph-view hidden representation \<open>h1\<close>. With
  one, the hypergraph-view path \<open>h2\<close> goes through the fields \<open>hgc1\<close>, \<open>hgc2\<close> and \<open>ln2\<close>
  of its own, and when \<open>h1\<close> and \<open>h2\<close> have one shape the projection head is applied to
  the tensor of that shape whose entries are the averages of the entries of \<open>h1\<close> and \<open>h2\<close>.
\<close>

theorem HGCLEncoder_forward_views:
  "(let h1 = relu (ln1 self (gcn2 self (relu (ln1 self (gcn1 self x edge_index))) edge_index))
    in HGCLEncoder_forward self x edge_index None = Inr (project self h1)
     \<and> (\<forall>hyperedge_index.
          let h2 = relu (ln2 self (hgc2 self (relu (ln2 self (hgc1 self x hyperedge_index)))
                     hyperedge_index))
          in same_shape h1 h2 \<longrightarrow>
             (\<exists>h. HGCLEncoder_forward self x edge_index (Some hyperedge_index) = Inr (project self h)
                    \<and> same_shape h h1
                    \<and> (\<forall>i < length h1. \<forall>j < length (h1 ! i). h ! i ! j = (h1 ! i ! j + h2 ! i ! j) / 2))))"
proof -
  define h1 where "h1 = relu (ln1 self (gcn2 self (relu (ln1 self (gcn1 self x edge_index))) edge_index))"
  have none: "HGCLEncoder_forward self x edge_index None = Inr (project self h1)"
    by (simp add: HGCLEncoder_forward_def h1_def)
  have some: "\<exists>h. HGCLEncoder_forward self x edge_index (Some he) = Inr (project self h)
              \<and> same_shape h h1
              \<and> (\<forall>i < length h1. \<forall>j < length (h1 ! i). h ! i ! j = (h1 ! i ! j + h2 ! i ! j) / 2)"
    if h2: "h2 = relu (ln2 self (hgc2 self (relu (ln2 self (hgc1 self x he))) he))"
      and sh: "same_shape h1 h2" for he h2
  proof -
    from average_entries [OF sh] obtain s where
      s: "add h1 h2 = Inr s" "same_shape (map (map (\<lambda>a. a / 2)) s) h1"
         "\<forall>i < length h1. \<forall>j < length (h1 ! i).
            map (map (\<lambda>a. a / 2)) s ! i ! j = (h1 ! i ! j + h2 ! i ! j) / 2"
      by blast
    have "HGCLEncoder_forward self x edge_index (Some he) = Inr (project self (map (map (\<lambda>a. a / 2)) s))"
      using s(1) unfolding HGCLEncoder_forward_def Let_def h1_def h2 by simp
    with s show ?thesis by auto
  qed
  from none some show ?thesis
    unfolding Let_def h1_def by blast
qed

theorem HGCLEncoder_forward_views_witness:
  "HGCLEncoder_forward (demo_encoder 3) [[1, - 2], [3, 4]] ([0], [1]) None = Inr [[1, 0], [3, 4]]
   \<and> same_shape [[1, 0], [3, 4]] [[3, 0], [9, 12 :: real]]
   \<and> HGCLEncoder_forward (demo_encoder 3) [[1, - 2], [3, 4]] ([0], [1]) (Some ([0, 1], [1, 0]))
       = Inr [[2, 0], [6, 8]]"
  using HGCLEncoder_forward_views [of "demo_encoder 3" "[[1, - 2], [3, 4]]" "([0], [1])"]
  by (simp add: HGCLEncoder_forward_def demo_encoder_def relu_def add_def same_shape_def Let_def)

section \<open>Properties of the forward pass\<close>

text \<open>The forward pass succeeds exactly when each of its steps does.\<close>

lemma H_GCL_forward_Inr:
  "H_GCL_forward cfg self rnd x edge_index hyperedge_index = Inr (loss, emb) \<longleftrightarrow>
   (\<exists>h_y loss_c t ac h_x_hat loss_g.
      HGCLEncoder_forward (encoder_x self) (fst (augment cfg rnd x edge_index))
        (snd (augment cfg rnd x edge_index)) None = Inr emb
    \<and> HGCLEncoder_forward (encoder_y self) (fst (augment cfg rnd x edge_index))
        (snd (augment cfg rnd x edge_index)) (Some hyperedge_index) = Inr h_y
    \<and> contrastive_loss emb h_y (TEMPERATURE cfg) = Inr loss_c
    \<and> py_randint rnd 0 (int (T_DIFFUSION cfg) - 1) = Inr t
    \<and> tensor_get (alpha_cum self) t = Inr ac \<and> 0 \<le> ac \<and> ac \<le> 1
    \<and> DiffusionDenoiser_forward (denoiser self) (add_noise rnd ac emb)
        (snd (augment cfg rnd x edge_index)) [real_of_int t / real (T_DIFFUSION cfg)] = Inr h_x_hat
    \<and> mse_loss h_x_hat emb = Inr loss_g
    \<and> loss = GAMMA cfg * loss_c + (1 - GAMMA cfg) * loss_g)"
  unfolding H_GCL_forward_def Let_def
  by (auto split: sum.splits prod.splits if_splits)

lemma length_cumprod_from: "length (cumprod_from p v) = length v"
  by (induction v arbitrary: p) auto

lemma length_schedule: "length (schedule cfg) = T_DIFFUSION cfg"
  by (simp add: schedule_def cumprod_def length_cumprod_from linspace_def Let_def)

lemma map_entries_nth:
  "i < length m \<Longrightarrow> j < length (m ! i) \<Longrightarrow> map_entries f m ! i ! j = f i j (m ! i ! j)"
  by (simp add: map_entries_def enumerate_eq_zip)

lemma same_shape_map_entries: "same_shape (map_entries f m) m"
  unfolding same_shape_def
  by (rule nth_equalityI) (simp_all add: map_entries_def enumerate_eq_zip)

lemmas fw_eval = H_GCL_forward_def HGCLEncoder_forward_def DiffusionDenoiser_forward_def
  augment_def add_noise_def map_entries_def mse_loss_def py_randint_def tensor_get_def
  expand_def add_def relu_def H_GCL_init_def demo_encoder_def demo_denoiser_def demo_draws_def
  script_config_def schedule_def linspace_def cumprod_def
  contrastive_loss_def same_shape_def normalize_dim1_def masked_fill_eye_def
  logsumexp_def mean_def dot_def l2norm_def Let_def enumerate_eq_zip upt_conv_Cons

lemma add_noise_entries:
  "same_shape (add_noise rnd ac h) h
   \<and> (\<forall>i < length h. \<forall>j < length (h ! i).
        add_noise rnd ac h ! i ! j = sqrt ac * (h ! i ! j) + sqrt (1 - ac) * randn_like rnd i j)"
  by (simp add: add_noise_def Let_def same_shape_map_entries map_entries_nth)

lemma tensor_get_nonneg:
  "tensor_get v t = Inr a \<Longrightarrow> 0 \<le> t \<Longrightarrow> nat t < length v \<and> a = v ! nat t"
  by (auto simp: tensor_get_def Let_def split: if_splits)

text \<open>
  Claim C7. The loss that the forward pass returns is
  \<open>GAMMA * loss_c + (1 - GAMMA) * loss_g\<close>, for the contrastive loss \<open>loss_c\<close> of the two
  views and the squared error \<open>loss_g\<close> of the denoiser; \<open>GAMMA\<close> is a constant of the
  configuration. With \<open>GAMMA = 1\<close> the loss is the contrastive loss, and the same for every
  denoiser with which the pass succeeds.
\<close>

theorem H_GCL_forward_total_loss:
  assumes "H_GCL_forward cfg self rnd x edge_index hyperedge_index = Inr (loss, emb)"
  shows "\<exists>h_y loss_c t ac h_x_hat loss_g.
      HGCLEncoder_forward (encoder_y self) (fst (augment cfg rnd x edge_index))
        (snd (augment cfg rnd x edge_index)) (Some hyperedge_index) = Inr h_y
    \<and> contrastive_loss emb h_y (TEMPERATURE cfg) = Inr loss_c
    \<and> DiffusionDenoiser_forward (denoiser self) (add_noise rnd ac emb)
        (snd (augment cfg rnd x edge_index)) [real_of_int t / real (T_DIFFUSION cfg)] = Inr h_x_hat
    \<and> mse_loss h_x_hat emb = Inr loss_g
    \<and> loss = GAMMA cfg * loss_c + (1 - GAMMA cfg) * loss_g
    \<and> (GAMMA cfg = 1 \<longrightarrow> loss = loss_c
         \<and> (\<forall>d' loss' emb'.
               H_GCL_forward cfg (self\<lparr>denoiser := d'\<rparr>) rnd x edge_index hyperedge_index = Inr (loss', emb')
               \<longrightarrow> loss' = loss))"
proof -
  from assms obtain h_y loss_c t ac h_x_hat loss_g where
    h: "HGCLEncoder_forward (encoder_x self) (fst (augment cfg rnd x edge_index))
          (snd (augment cfg rnd x edge_index)) None = Inr emb"
       "HGCLEncoder_forward (encoder_y self) (fst (augment cfg rnd x edge_index))
          (snd (augment cfg rnd x edge_index)) (Some hyperedge_index) = Inr h_y"
       "contrastive_loss emb h_y (TEMPERATURE cfg) = Inr loss_c"
       "DiffusionDenoiser_forward (denoiser self) (add_noise rnd ac emb)
          (snd (augment cfg rnd x edge_index)) [real_of_int t / real (T_DIFFUSION cfg)] = Inr h_x_hat"
       "mse_loss h_x_hat emb = Inr loss_g"
       "loss = GAMMA cfg * loss_c + (1 - GAMMA cfg) * loss_g"
    unfolding H_GCL_forward_Inr by blast
  have "loss' = loss"
    if g: "GAMMA cfg = 1"
      and f: "H_GCL_forward cfg (self\<lparr>denoiser := d'\<rparr>) rnd x edge_index hyperedge_index = Inr (loss', emb')"
    for d' loss' emb'
  proof -
    from f obtain h_y' loss_c' where
      h': "HGCLEncoder_forward (encoder_x self) (fst (augment cfg rnd x edge_index))
             (snd (augment cfg rnd x edge_index)) None = Inr emb'"
          "HGCLEncoder_forward (encoder_y self) (fst (augment cfg rnd x edge_index))
             (snd (augment cfg rnd x edge_index)) (Some hyperedge_index) = Inr h_y'"
          "contrastive_loss emb' h_y' (TEMPERATURE cfg) = Inr loss_c'"
          "loss' = loss_c'"
      unfolding H_GCL_forward_Inr using g by auto
    with h g show ?thesis by simp
  qed
  with h show ?thesis by (intro exI conjI) (assumption | simp)+
qed

theorem H_GCL_forward_total_loss_witness:
  "GAMMA gamma_one = 1
   \<and> H_GCL_forward gamma_one (demo_model 1) demo_draws [[1, 0], [0, 1]] ([0, 1, 1], [1, 0, 1]) ([0, 1], [1, 0])
       = Inr (ln (1 + exp (- 9000000000000000)) - 10 / 7, [[1, 0], [0, 1]])
   \<and> H_GCL_forward gamma_one ((demo_model 1)\<lparr>denoiser := demo_denoiser 7\<rparr>) demo_draws
         [[1, 0], [0, 1]] ([0, 1, 1], [1, 0, 1]) ([0, 1], [1, 0])
       = Inr (ln (1 + exp (- 9000000000000000)) - 10 / 7, [[1, 0], [0, 1]])"
proof -
  have g: "GAMMA gamma_one = 1"
    by (simp add: gamma_one_def)
  have a: "H_GCL_forward gamma_one (demo_model 1) demo_draws [[1, 0], [0, 1]] ([0, 1, 1], [1, 0, 1]) ([0, 1], [1, 0])
       = Inr (ln (1 + exp (- 9000000000000000)) - 10 / 7, [[1, 0], [0, 1]])"
    by (simp add: fw_eval gamma_one_def demo_model_def add.commute) argo
  have "\<exists>l. H_GCL_forward gamma_one ((demo_model 1)\<lparr>denoiser := demo_denoiser 7\<rparr>) demo_draws
         [[1, 0], [0, 1]] ([0, 1, 1], [1, 0, 1]) ([0, 1], [1, 0]) = Inr (l, [[1, 0], [0, 1]])"
    by (simp add: fw_eval gamma_one_def demo_model_def)
  then obtain l where b: "H_GCL_forward gamma_one ((demo_model 1)\<lparr>denoiser := demo_denoiser 7\<rparr>) demo_draws
         [[1, 0], [0, 1]] ([0, 1, 1], [1, 0, 1]) ([0, 1], [1, 0]) = Inr (l, [[1, 0], [0, 1]])"
    by blast
  from H_GCL_forward_total_loss [OF a] g b
  have "l = ln (1 + exp (- 9000000000000000)) - 10 / 7"
    by blast
  with g a b show ?thesis by simp
qed

text \<open>
  Claim C8. The timestep \<open>t\<close> of a forward pass is the number that \<^verbatim>\<open>random.randint\<close>
  returns for the bounds 0 and \<open>T - 1\<close>, a number of the range from 0 to \<open>T\<close>, \<open>T\<close> excluded.
  The noised embedding has the shape of the graph-view embedding, and its entry at
  \<open>(i, j)\<close> is \<open>sqrt (alpha_cum[t])\<close> times the entry of the embedding plus
  \<open>sqrt (1 - alpha_cum[t])\<close> times the normal draw for \<open>(i, j)\<close>. The denoiser is applied to
  the noised embedding, to the edge list that \<^verbatim>\<open>dropout_edge\<close> returned, and to \<open>t / T\<close>.
\<close>

theorem H_GCL_forward_noising:
  assumes fw: "H_GCL_forward cfg self rnd x edge_index hyperedge_index = Inr (loss, emb)"
    and sampler: "\<forall>a b. a \<le> b \<longrightarrow> a \<le> randint rnd a b \<and> randint rnd a b \<le> b"
  shows "\<exists>t ac h_x_noisy h_x_hat.
      t = randint rnd 0 (int (T_DIFFUSION cfg) - 1) \<and> 0 \<le> t \<and> t < int (T_DIFFUSION cfg)
    \<and> nat t < length (alpha_cum self) \<and> ac = alpha_cum self ! nat t
    \<and> same_shape h_x_noisy emb
    \<and> (\<forall>i < length emb. \<forall>j < length (emb ! i).
          h_x_noisy ! i ! j = sqrt ac * (emb ! i ! j) + sqrt (1 - ac) * randn_like rnd i j)
    \<and> DiffusionDenoiser_forward (denoiser self) h_x_noisy
        (dropout_edge rnd edge_index (EDGE_DROP_RATIO cfg))
        [real_of_int t / real (T_DIFFUSION cfg)] = Inr h_x_hat
    \<and> (\<exists>loss_c loss_g. mse_loss h_x_hat emb = Inr loss_g
          \<and> loss = GAMMA cfg * loss_c + (1 - GAMMA cfg) * loss_g)"
proof -
  from fw obtain h_y loss_c t ac h_x_hat loss_g where
    h: "py_randint rnd 0 (int (T_DIFFUSION cfg) - 1) = Inr t"
       "tensor_get (alpha_cum self) t = Inr ac"
       "DiffusionDenoiser_forward (denoiser self) (add_noise rnd ac emb)
          (snd (augment cfg rnd x edge_index)) [real_of_int t / real (T_DIFFUSION cfg)] = Inr h_x_hat"
       "mse_loss h_x_hat emb = Inr loss_g"
       "loss = GAMMA cfg * loss_c + (1 - GAMMA cfg) * loss_g"
    unfolding H_GCL_forward_Inr by blast
  from h(1) have t: "t = randint rnd 0 (int (T_DIFFUSION cfg) - 1)" "0 \<le> int (T_DIFFUSION cfg) - 1"
    by (auto simp: py_randint_def split: if_splits)
  from sampler t(2) have "0 \<le> randint rnd 0 (int (T_DIFFUSION cfg) - 1)
      \<and> randint rnd 0 (int (T_DIFFUSION cfg) - 1) \<le> int (T_DIFFUSION cfg) - 1"
    by blast
  with t(1) have r: "0 \<le> t" "t < int (T_DIFFUSION cfg)"
    by simp_all
  from tensor_get_nonneg [OF h(2) r(1)] have g: "nat t < length (alpha_cum self)" "ac = alpha_cum self ! nat t"
    by simp_all
  have e: "snd (augment cfg rnd x edge_index) = dropout_edge rnd edge_index (EDGE_DROP_RATIO cfg)"
    by (simp add: augment_def Let_def)
  from t(1) r g h(3,4,5) add_noise_entries [of rnd ac emb] show ?thesis
    unfolding e by blast
qed

theorem H_GCL_forward_noising_witness:
  "H_GCL_forward script_config (demo_model 1) demo_draws [[1, 0], [0, 1]] ([0, 1, 1], [1, 0, 1]) ([0, 1], [1, 0])
       = Inr (1 / 2 - (8 / 7 - 4 / 5 * ln (1 + exp (- 9000000000000000))), [[1, 0], [0, 1]])
   \<and> randint demo_draws 0 (int (T_DIFFUSION script_config) - 1) = 0
   \<and> alpha_cum (demo_model 1) ! 0 = 9999 / 10000
   \<and> dropout_edge demo_draws ([0, 1, 1], [1, 0, 1]) (EDGE_DROP_RATIO script_config) = ([0, 1], [1, 0])"
proof -
  have s: "\<forall>a b. a \<le> b \<longrightarrow> a \<le> randint demo_draws a b \<and> randint demo_draws a b \<le> b"
    by (simp add: demo_draws_def)
  have a: "H_GCL_forward script_config (demo_model 1) demo_draws [[1, 0], [0, 1]] ([0, 1, 1], [1, 0, 1]) ([0, 1], [1, 0])
       = Inr (1 / 2 - (8 / 7 - 4 / 5 * ln (1 + exp (- 9000000000000000))), [[1, 0], [0, 1]])"
    by (simp add: fw_eval demo_model_def add.commute) argo
  have r: "randint demo_draws 0 (int (T_DIFFUSION script_config) - 1) = 0"
    by (simp add: demo_draws_def)
  from H_GCL_forward_noising [OF a s] r
  have "0 < length (alpha_cum (demo_model 1))"
    by auto
  moreover have "alpha_cum (demo_model 1) ! 0 = 9999 / 10000"
    by (simp add: demo_model_def H_GCL_init_def schedule_def linspace_def cumprod_def
        script_config_def Let_def upt_conv_Cons)
  moreover have "dropout_edge demo_draws ([0, 1, 1], [1, 0, 1]) (EDGE_DROP_RATIO script_config) = ([0, 1], [1, 0])"
    by (simp add: demo_draws_def)
  ultimately show ?thesis using a r by simp
qed

section \<open>Properties of the training script\<close>

lemma track_best_improves:
  "improves loss val_acc st \<Longrightarrow> evaluate E v_emb test_mask = Inr acc \<Longrightarrow>
   track_best E loss v_emb val_acc st =
     Inr (st\<lparr>best_val_acc := val_acc, best_emb := Some v_emb, patience_counter := 0,
             test_acc := acc, best_loss := loss\<rparr>)"
  by (auto simp: track_best_def improves_def)

lemma track_best_stagnant:
  "\<not> improves loss val_acc st \<Longrightarrow>
   track_best E loss v_emb val_acc st = Inr (st\<lparr>patience_counter := patience_counter st + 1\<rparr>)"
  by (auto simp: track_best_def improves_def)

lemma track_best_Inr:
  assumes "track_best E loss v_emb val_acc st = Inr st'"
  shows "sys st' = sys st \<and> epoch st' = epoch st \<and> val_emb st' = val_emb st
       \<and> early_stop st' = early_stop st
       \<and> (if improves loss val_acc st
           then patience_counter st' = 0 \<and> best_emb st' = Some v_emb
           else patience_counter st' = patience_counter st + 1 \<and> best_emb st' = best_emb st)"
  using assms by (auto simp: track_best_def improves_def split: if_splits sum.splits)

lemma train_epoch_Inr:
  assumes "train_epoch E n st = Inr st'"
  shows "\<exists>loss v_emb val_acc.
           observe E (sys st) = Inr ((loss, v_emb, val_acc), sys st')
         \<and> epoch st' = n \<and> val_emb st' = Some v_emb \<and> early_stop st' = early_stop st
         \<and> (if improves loss val_acc st
             then patience_counter st' = 0 \<and> best_emb st' = Some v_emb
             else patience_counter st' = patience_counter st + 1 \<and> best_emb st' = best_emb st)"
proof -
  from assms obtain loss v_emb val_acc s where
    ob: "observe E (sys st) = Inr ((loss, v_emb, val_acc), s)"
    and tb: "track_best E loss v_emb val_acc (st\<lparr>sys := s, epoch := n, val_emb := Some v_emb\<rparr>) = Inr st'"
    by (auto simp: train_epoch_def split: sum.splits prod.splits)
  have "improves loss val_acc (st\<lparr>sys := s, epoch := n, val_emb := Some v_emb\<rparr>) = improves loss val_acc st"
    by (simp add: improves_def)
  with track_best_Inr [OF tb] ob show ?thesis by auto
qed

lemma train_loop_step:
  "n \<le> NUM_EPOCHS E \<Longrightarrow> train_epoch E n st = Inr st' \<Longrightarrow>
   train_loop E n st =
     (if PATIENCE E \<le> patience_counter st' then Inr (st'\<lparr>early_stop := True\<rparr>)
      else train_loop E (Suc n) st')"
  by (simp add: train_loop.simps [of E n st])

lemma train_loop_done: "NUM_EPOCHS E < n \<Longrightarrow> train_loop E n st = Inr st"
  by (simp add: train_loop.simps [of E n st])

lemma train_loop_Inr:
  "train_loop E n st = Inr fin \<Longrightarrow> 1 \<le> n \<Longrightarrow> n \<le> NUM_EPOCHS E \<Longrightarrow> \<not> early_stop st \<Longrightarrow>
   sys_after E s (n - 1) = Inr (sys st) \<Longrightarrow>
   (best_emb st = None \<longrightarrow> patience_counter st = n - 1) \<Longrightarrow>
   n \<le> epoch fin \<and> epoch fin \<le> NUM_EPOCHS E
   \<and> (early_stop fin \<longleftrightarrow> PATIENCE E \<le> patience_counter fin)
   \<and> (early_stop fin \<or> epoch fin = NUM_EPOCHS E)
   \<and> sys_after E s (epoch fin) = Inr (sys fin)
   \<and> val_emb fin = val_emb_of_epoch E s (epoch fin) \<and> val_emb fin \<noteq> None
   \<and> (best_emb fin = None \<longrightarrow> patience_counter fin = epoch fin)"
proof (induction E n st rule: train_loop.induct)
  case (1 E n st)
  from "1.prems"(1,3) obtain st' where te: "train_epoch E n st = Inr st'"
    by (auto simp: train_loop.simps [of E n st] split: sum.splits)
  from train_epoch_Inr [OF te] obtain loss v_emb val_acc where
    ob: "observe E (sys st) = Inr ((loss, v_emb, val_acc), sys st')"
    and st': "epoch st' = n" "val_emb st' = Some v_emb" "early_stop st' = early_stop st"
    and pc: "if improves loss val_acc st
             then patience_counter st' = 0 \<and> best_emb st' = Some v_emb
             else patience_counter st' = patience_counter st + 1 \<and> best_emb st' = best_emb st"
    by blast
  from "1.prems"(2) obtain m where n: "n = Suc m" by (cases n) auto
  from "1.prems"(5) ob n have sa: "sys_after E s n = Inr (sys st')" by simp
  from "1.prems"(5) ob n st'(2) have ve: "val_emb st' = val_emb_of_epoch E s n" by simp
  from pc "1.prems"(6) n have inv: "best_emb st' = None \<longrightarrow> patience_counter st' = n"
    by (auto split: if_splits)
  show ?case
  proof (cases "PATIENCE E \<le> patience_counter st'")
    case True
    with "1.prems"(1,3) te have "fin = st'\<lparr>early_stop := True\<rparr>"
      by (simp add: train_loop_step)
    with True st' sa ve inv "1.prems"(3) show ?thesis by simp
  next
    case False
    with "1.prems"(1,3) te have tl: "train_loop E (Suc n) st' = Inr fin"
      by (simp add: train_loop_step)
    show ?thesis
    proof (cases "Suc n \<le> NUM_EPOCHS E")
      case True
      have ih: "Suc n \<le> epoch fin \<and> epoch fin \<le> NUM_EPOCHS E
         \<and> (early_stop fin \<longleftrightarrow> PATIENCE E \<le> patience_counter fin)
         \<and> (early_stop fin \<or> epoch fin = NUM_EPOCHS E)
         \<and> sys_after E s (epoch fin) = Inr (sys fin)
         \<and> val_emb fin = val_emb_of_epoch E s (epoch fin) \<and> val_emb fin \<noteq> None
         \<and> (best_emb fin = None \<longrightarrow> patience_counter fin = epoch fin)"
        using "1.prems"(3,4) te False tl True st'(3) sa inv
        by (intro "1.IH" [of st']) simp_all
      then have "n \<le> epoch fin" by simp
      with ih show ?thesis by blast
    next
      case False
      with tl have "fin = st'" by (simp add: train_loop_done)
      with False \<open>\<not> PATIENCE E \<le> patience_counter st'\<close> st' sa ve inv "1.prems"(3,4)
      show ?thesis by simp
    qed
  qed
qed

lemmas loop_eval = train_loop.simps train_epoch_def observe_def track_best_def initial_vars_def
  demo_script_def diverged_script_def run_def

lemma demo_loop:
  "train_loop (demo_script 1 5) 1 (initial_vars 0) =
     Inr \<lparr>sys = 2, best_val_acc = 1 / 2, best_emb = Some 1, patience_counter = 1, test_acc = 1 / 4,
          best_loss = Fin 1, epoch = 2, val_emb = Some 2, early_stop = True\<rparr>"
  by (simp add: loop_eval)

lemma diverged_loop:
  "train_loop diverged_script 1 (initial_vars 0) =
     Inr \<lparr>sys = 30, best_val_acc = 0, best_emb = None, patience_counter = 30, test_acc = 0,
          best_loss = PInf, epoch = 30, val_emb = Some 30, early_stop = True\<rparr>"
  by (simp add: loop_eval)

text \<open>
  Claim C2. In each epoch the best state is replaced when the validation accuracy exceeds
  the best so far, or equals it while the loss is below the best loss (\<open>improves\<close>); the
  replacement sets the stagnation counter to 0 and the test accuracy to the accuracy of the
  new best embedding. Any other epoch adds one to the counter. After an epoch the loop
  stops when the counter has reached \<^verbatim>\<open>PATIENCE\<close> and goes on to the next epoch otherwise;
  a loop that has ended has stopped early exactly if the counter has reached \<^verbatim>\<open>PATIENCE\<close>,
  and has run \<^verbatim>\<open>NUM_EPOCHS\<close> epochs if it has not. With patience 1, a first epoch that
  improves and a second that does not, the loop stops in epoch 2.
\<close>

theorem training_loop_policy:
  fixes E :: "('s, 'e) script"
  shows
  "(improves loss val_acc st \<and> evaluate E v_emb test_mask = Inr acc \<longrightarrow>
      track_best E loss v_emb val_acc st =
        Inr (st\<lparr>best_val_acc := val_acc, best_emb := Some v_emb, patience_counter := 0,
                test_acc := acc, best_loss := loss\<rparr>))
   \<and> (\<not> improves loss2 val_acc2 st2 \<longrightarrow>
      track_best E loss2 v_emb2 val_acc2 st2 = Inr (st2\<lparr>patience_counter := patience_counter st2 + 1\<rparr>))
   \<and> (n \<le> NUM_EPOCHS E \<and> train_epoch E n st3 = Inr st3' \<longrightarrow>
      train_loop E n st3 =
        (if PATIENCE E \<le> patience_counter st3' then Inr (st3'\<lparr>early_stop := True\<rparr>)
         else train_loop E (Suc n) st3'))
   \<and> (1 \<le> NUM_EPOCHS E \<and> train_loop E 1 (initial_vars s) = Inr fin \<longrightarrow>
      1 \<le> epoch fin \<and> epoch fin \<le> NUM_EPOCHS E
      \<and> (early_stop fin \<longleftrightarrow> PATIENCE E \<le> patience_counter fin)
      \<and> (\<not> early_stop fin \<longrightarrow> epoch fin = NUM_EPOCHS E))
   \<and> (PATIENCE E = 1 \<and> 2 \<le> NUM_EPOCHS E
      \<and> observe E s = Inr ((l1, v1, a1), s1) \<and> improves l1 a1 (initial_vars s :: ('s, 'e) vars)
      \<and> evaluate E v1 test_mask = Inr t1
      \<and> observe E s1 = Inr ((l2, v2, a2), s2)
      \<and> \<not> a1 < a2 \<and> \<not> (a2 = a1 \<and> float_less l2 l1) \<longrightarrow>
      (\<exists>fin'. train_loop E 1 (initial_vars s) = Inr fin' \<and> epoch fin' = 2 \<and> early_stop fin'
         \<and> best_emb fin' = Some v1 \<and> patience_counter fin' = 1))"
proof (intro conjI impI)
  assume "improves loss val_acc st \<and> evaluate E v_emb test_mask = Inr acc"
  then show "track_best E loss v_emb val_acc st =
        Inr (st\<lparr>best_val_acc := val_acc, best_emb := Some v_emb, patience_counter := 0,
                test_acc := acc, best_loss := loss\<rparr>)"
    by (simp add: track_best_improves)
next
  assume "\<not> improves loss2 val_acc2 st2"
  then show "track_best E loss2 v_emb2 val_acc2 st2 = Inr (st2\<lparr>patience_counter := patience_counter st2 + 1\<rparr>)"
    by (rule track_best_stagnant)
next
  assume "n \<le> NUM_EPOCHS E \<and> train_epoch E n st3 = Inr st3'"
  then show "train_loop E n st3 =
        (if PATIENCE E \<le> patience_counter st3' then Inr (st3'\<lparr>early_stop := True\<rparr>)
         else train_loop E (Suc n) st3')"
    by (simp add: train_loop_step)
next
  assume a: "1 \<le> NUM_EPOCHS E \<and> train_loop E 1 (initial_vars s) = Inr fin"
  have "1 \<le> epoch fin \<and> epoch fin \<le> NUM_EPOCHS E
     \<and> (early_stop fin \<longleftrightarrow> PATIENCE E \<le> patience_counter fin)
     \<and> (early_stop fin \<or> epoch fin = NUM_EPOCHS E)
     \<and> sys_after E s (epoch fin) = Inr (sys fin)
     \<and> val_emb fin = val_emb_of_epoch E s (epoch fin) \<and> val_emb fin \<noteq> None
     \<and> (best_emb fin = None \<longrightarrow> patience_counter fin = epoch fin)"
    using a by (intro train_loop_Inr [of E 1 "initial_vars s" fin s]) (simp_all add: initial_vars_def)
  then show "1 \<le> epoch fin" "epoch fin \<le> NUM_EPOCHS E"
    "early_stop fin \<longleftrightarrow> PATIENCE E \<le> patience_counter fin"
    "\<not> early_stop fin \<Longrightarrow> epoch fin = NUM_EPOCHS E"
    by blast+
next
  assume a: "PATIENCE E = 1 \<and> 2 \<le> NUM_EPOCHS E
      \<and> observe E s = Inr ((l1, v1, a1), s1) \<and> improves l1 a1 (initial_vars s :: ('s, 'e) vars)
      \<and> evaluate E v1 test_mask = Inr t1
      \<and> observe E s1 = Inr ((l2, v2, a2), s2)
      \<and> \<not> a1 < a2 \<and> \<not> (a2 = a1 \<and> float_less l2 l1)"
  then have p: "PATIENCE E = 1" and ne: "2 \<le> NUM_EPOCHS E"
    and o1: "observe E s = Inr ((l1, v1, a1), s1)" and im: "improves l1 a1 (initial_vars s :: ('s, 'e) vars)"
    and ev: "evaluate E v1 test_mask = Inr t1"
    and o2: "observe E s1 = Inr ((l2, v2, a2), s2)"
    and no: "\<not> a1 < a2" "\<not> (a2 = a1 \<and> float_less l2 l1)"
    by simp_all
  define u1 :: "('s, 'e) vars" where
    "u1 = \<lparr>sys = s1, best_val_acc = a1, best_emb = Some v1, patience_counter = 0, test_acc = t1,
            best_loss = l1, epoch = 1, val_emb = Some v1, early_stop = False\<rparr>"
  define u2 where "u2 = u1\<lparr>sys := s2, epoch := 2, val_emb := Some v2, patience_counter := 1\<rparr>"
  have i1: "improves l1 a1 (initial_vars s\<lparr>sys := s1, epoch := 1, val_emb := Some v1\<rparr>)"
    using im by (simp add: improves_def)
  have e1: "train_epoch E 1 (initial_vars s) = Inr u1"
    using o1 track_best_improves [OF i1 ev]
    by (simp add: train_epoch_def initial_vars_def u1_def)
  have i2: "\<not> improves l2 a2 (u1\<lparr>sys := s2, epoch := 2, val_emb := Some v2\<rparr>)"
    using no by (auto simp: improves_def u1_def)
  have e2: "train_epoch E 2 u1 = Inr u2"
    using o2 track_best_stagnant [OF i2, of E v2]
    by (simp add: train_epoch_def u1_def u2_def)
  have "train_loop E 1 (initial_vars s) = train_loop E (Suc 1) u1"
    using p ne e1 by (subst train_loop_step [of 1 E _ u1]) (simp_all add: u1_def)
  also have "\<dots> = Inr (u2\<lparr>early_stop := True\<rparr>)"
    using p ne e2 by (subst train_loop_step [of _ E _ u2]) (simp_all add: u2_def numeral_2_eq_2)
  finally show "\<exists>fin'. train_loop E 1 (initial_vars s) = Inr fin' \<and> epoch fin' = 2 \<and> early_stop fin'
         \<and> best_emb fin' = Some v1 \<and> patience_counter fin' = 1"
    by (simp add: u2_def u1_def)
qed

theorem training_loop_policy_witness:
  "improves (Fin 1) (1 / 2) (initial_vars 0 :: (nat, nat) vars)
   \<and> evaluate (demo_script 1 5) 1 test_mask = Inr (1 / 4)
   \<and> track_best (demo_script 1 5) (Fin 1) 1 (1 / 2) (initial_vars 0)
       = Inr \<lparr>sys = 0, best_val_acc = 1 / 2, best_emb = Some 1, patience_counter = 0, test_acc = 1 / 4,
              best_loss = Fin 1, epoch = 0, val_emb = None, early_stop = False\<rparr>
   \<and> \<not> improves (Fin 2) (1 / 2)
         \<lparr>sys = 1 :: nat, best_val_acc = 1 / 2, best_emb = Some (1 :: nat), patience_counter = 0,
          test_acc = 1 / 4, best_loss = Fin 1, epoch = 1, val_emb = Some 1, early_stop = False\<rparr>
   \<and> track_best (demo_script 1 5) (Fin 2) 2 (1 / 2)
         \<lparr>sys = 1, best_val_acc = 1 / 2, best_emb = Some 1, patience_counter = 0,
          test_acc = 1 / 4, best_loss = Fin 1, epoch = 1, val_emb = Some 1, early_stop = False\<rparr>
       = Inr \<lparr>sys = 1, best_val_acc = 1 / 2, best_emb = Some 1, patience_counter = 1,
              test_acc = 1 / 4, best_loss = Fin 1, epoch = 1, val_emb = Some 1, early_stop = False\<rparr>
   \<and> PATIENCE (demo_script 1 5) = 1 \<and> 2 \<le> NUM_EPOCHS (demo_script 1 5)
   \<and> observe (demo_script 1 5) 0 = Inr ((Fin 1, 1, 1 / 2), 1)
   \<and> observe (demo_script 1 5) 1 = Inr ((Fin 2, 2, 1 / 2), 2)
   \<and> \<not> (1 / 2 :: real) < 1 / 2 \<and> \<not> ((1 / 2 :: real) = 1 / 2 \<and> float_less (Fin 2) (Fin 1))
   \<and> train_epoch (demo_script 1 5) 1 (initial_vars 0)
       = Inr \<lparr>sys = 1, best_val_acc = 1 / 2, best_emb = Some 1, patience_counter = 0,
              test_acc = 1 / 4, best_loss = Fin 1, epoch = 1, val_emb = Some 1, early_stop = False\<rparr>
   \<and> train_loop (demo_script 1 5) 1 (initial_vars 0)
       = Inr \<lparr>sys = 2, best_val_acc = 1 / 2, best_emb = Some 1, patience_counter = 1, test_acc = 1 / 4,
              best_loss = Fin 1, epoch = 2, val_emb = Some 2, early_stop = True\<rparr>"
proof -
  let ?E = "demo_script 1 5"
  let ?s1 = "\<lparr>sys = 1 :: nat, best_val_acc = 1 / 2, best_emb = Some (1 :: nat), patience_counter = 0,
          test_acc = 1 / 4, best_loss = Fin 1, epoch = 1, val_emb = Some 1, early_stop = False\<rparr>"
  let ?fin = "\<lparr>sys = 2 :: nat, best_val_acc = 1 / 2, best_emb = Some (1 :: nat), patience_counter = 1,
          test_acc = 1 / 4, best_loss = Fin 1, epoch = 2, val_emb = Some 2, early_stop = True\<rparr>"
  note T = training_loop_policy [where E = ?E and loss = "Fin 1" and val_acc = "1 / 2"
      and st = "initial_vars 0" and v_emb = 1 and acc = "1 / 4"
      and ?loss2.0 = "Fin 2" and ?val_acc2.0 = "1 / 2" and ?st2.0 = ?s1 and ?v_emb2.0 = 2
      and n = 1 and ?st3.0 = "initial_vars 0" and st3' = ?s1
      and s = 0 and fin = ?fin
      and ?l1.0 = "Fin 1" and ?v1.0 = 1 and ?a1.0 = "1 / 2" and ?s1.0 = 1 and ?t1.0 = "1 / 4"
      and ?l2.0 = "Fin 2" and ?v2.0 = 2 and ?a2.0 = "1 / 2" and ?s2.0 = 2]
  have h1: "improves (Fin 1) (1 / 2) (initial_vars 0 :: (nat, nat) vars)"
    by (simp add: improves_def initial_vars_def)
  have h2: "evaluate ?E 1 test_mask = Inr (1 / 4)"
    by (simp add: demo_script_def)
  have h3: "\<not> improves (Fin 2) (1 / 2) ?s1"
    by (simp add: improves_def)
  have h4: "1 \<le> NUM_EPOCHS ?E" "PATIENCE ?E = 1" "2 \<le> NUM_EPOCHS ?E"
    by (simp_all add: demo_script_def)
  have h5: "train_epoch ?E 1 (initial_vars 0) = Inr ?s1"
    by (simp add: loop_eval)
  have h6: "observe ?E 0 = Inr ((Fin 1, 1, 1 / 2), 1)" "observe ?E 1 = Inr ((Fin 2, 2, 1 / 2), 2)"
    by (simp_all add: loop_eval)
  from T h1 h2 h3 h4 h5 h6 demo_loop show ?thesis
    by (simp add: initial_vars_def)
qed

text \<open>
  Claim C3, as amended. When the loop ends without any recorded best state, the fallback
  of lines 319-321 takes the validation embedding of the last epoch that ran (every epoch
  until then was a stagnant one, so the counter equals the number of that epoch), and its
  test accuracy. That is the first validation embedding only if the loop ran one epoch.
\<close>

theorem fallback_uses_last_epoch:
  fixes E :: "('s, 'e) script"
  assumes "train_loop E 1 (initial_vars s) = Inr st" and "best_emb st = None"
    and "1 \<le> NUM_EPOCHS E"
  shows "\<exists>v. val_emb_of_epoch E s (epoch st) = Some v \<and> val_emb st = Some v
           \<and> 1 \<le> epoch st \<and> patience_counter st = epoch st
           \<and> (early_stop st \<or> epoch st = NUM_EPOCHS E)
           \<and> run E s = (case evaluate E v test_mask of
                          Inl e \<Rightarrow> Inl e
                        | Inr acc \<Rightarrow> Inr (st\<lparr>best_emb := Some v, test_acc := acc\<rparr>))"
proof -
  have "1 \<le> epoch st \<and> epoch st \<le> NUM_EPOCHS E
     \<and> (early_stop st \<longleftrightarrow> PATIENCE E \<le> patience_counter st)
     \<and> (early_stop st \<or> epoch st = NUM_EPOCHS E)
     \<and> sys_after E s (epoch st) = Inr (sys st)
     \<and> val_emb st = val_emb_of_epoch E s (epoch st) \<and> val_emb st \<noteq> None
     \<and> (best_emb st = None \<longrightarrow> patience_counter st = epoch st)"
    using assms(1,3)
    by (intro train_loop_Inr [of E 1 "initial_vars s" st s]) (simp_all add: initial_vars_def)
  then have f: "1 \<le> epoch st" "early_stop st \<or> epoch st = NUM_EPOCHS E"
    "val_emb st = val_emb_of_epoch E s (epoch st)" "val_emb st \<noteq> None"
    "best_emb st = None \<longrightarrow> patience_counter st = epoch st"
    by blast+
  from f(4) obtain v where v: "val_emb st = Some v" by blast
  with f(3) have "val_emb_of_epoch E s (epoch st) = Some v" by simp
  moreover have "run E s = (case evaluate E v test_mask of
                          Inl e \<Rightarrow> Inl e
                        | Inr acc \<Rightarrow> Inr (st\<lparr>best_emb := Some v, test_acc := acc\<rparr>))"
    using assms(1,2) v by (simp add: run_def)
  moreover from f(5) assms(2) have "patience_counter st = epoch st" by simp
  ultimately show ?thesis
    using v f(1,2) by blast
qed

theorem fallback_uses_last_epoch_witness:
  "train_loop diverged_script 1 (initial_vars 0)
     = Inr \<lparr>sys = 30, best_val_acc = 0, best_emb = None, patience_counter = 30, test_acc = 0,
            best_loss = PInf, epoch = 30, val_emb = Some 30, early_stop = True\<rparr>
   \<and> 1 \<le> NUM_EPOCHS diverged_script
   \<and> val_emb_of_epoch diverged_script 0 30 = Some 30
   \<and> run diverged_script 0
     = Inr \<lparr>sys = 30, best_val_acc = 0, best_emb = Some 30, patience_counter = 30, test_acc = 0,
            best_loss = PInf, epoch = 30, val_emb = Some 30, early_stop = True\<rparr>"
proof -
  have n: "1 \<le> NUM_EPOCHS diverged_script"
    by (simp add: diverged_script_def)
  from fallback_uses_last_epoch [OF diverged_loop _ n]
  have "val_emb_of_epoch diverged_script 0 30 = Some 30
      \<and> run diverged_script 0
        = Inr \<lparr>sys = 30, best_val_acc = 0, best_emb = Some 30, patience_counter = 30, test_acc = 0,
               best_loss = PInf, epoch = 30, val_emb = Some 30, early_stop = True\<rparr>"
    by (auto simp: diverged_script_def)
  with diverged_loop n show ?thesis by simp
qed

text \<open>
  Claim C3, as stated, fails on the script with the constants of \<^verbatim>\<open>hgcl.py\<close> whose loss is
  infinite and whose validation accuracy is 0 in every epoch: no best state is recorded,
  the loop stops in epoch 30, and the embedding that is saved is the validation embedding
  of epoch 30, not that of epoch 1.
\<close>

theorem fallback_not_first_epoch:
  "map_sum id best_emb (train_loop diverged_script 1 (initial_vars 0)) = Inr None
   \<and> map_sum id best_emb (run diverged_script 0) = Inr (Some 30)
   \<and> val_emb_of_epoch diverged_script 0 1 = Some 1
   \<and> map_sum id best_emb (run diverged_script 0) \<noteq> Inr (val_emb_of_epoch diverged_script 0 1)"
proof -
  have "val_emb_of_epoch diverged_script 0 (Suc 0) = Some 1"
    by (simp add: observe_def diverged_script_def)
  moreover have "run diverged_script 0
     = Inr \<lparr>sys = 30, best_val_acc = 0, best_emb = Some 30, patience_counter = 30, test_acc = 0,
            best_loss = PInf, epoch = 30, val_emb = Some 30, early_stop = True\<rparr>"
    using diverged_loop by (simp add: run_def diverged_script_def)
  ultimately show ?thesis
    using diverged_loop by simp
qed

section \<open>The embedding that the script evaluates and saves\<close>

text \<open>Whatever holds of every validation embedding holds of the embedding that is saved.\<close>

lemma train_loop_embeddings:
  "train_loop E n st = Inr fin \<Longrightarrow>
     (\<forall>s v s'. eval_step E s = Inr (v, s') \<longrightarrow> P v) \<Longrightarrow>
     (\<forall>b. best_emb st = Some b \<longrightarrow> P b) \<Longrightarrow> (\<forall>v. val_emb st = Some v \<longrightarrow> P v) \<Longrightarrow>
     (\<forall>b. best_emb fin = Some b \<longrightarrow> P b) \<and> (\<forall>v. val_emb fin = Some v \<longrightarrow> P v)"
proof (induction E n st rule: train_loop.induct)
  case (1 E n st)
  show ?case
  proof (cases "NUM_EPOCHS E < n")
    case True
    with "1.prems" show ?thesis by (simp add: train_loop_done)
  next
    case False
    with "1.prems"(1) obtain st' where te: "train_epoch E n st = Inr st'"
      by (auto simp: train_loop.simps [of E n st] split: sum.splits)
    from train_epoch_Inr [OF te] obtain loss v_emb val_acc where
      ob: "observe E (sys st) = Inr ((loss, v_emb, val_acc), sys st')"
      and ve: "val_emb st' = Some v_emb"
      and be: "best_emb st' = Some v_emb \<or> best_emb st' = best_emb st"
      by (auto split: if_splits)
    from ob obtain s1 s2 where "eval_step E s1 = Inr (v_emb, s2)"
      by (auto simp: observe_def split: sum.splits prod.splits)
    with "1.prems"(2) have pv: "P v_emb" by blast
    with ve be "1.prems"(3) have inv: "\<forall>b. best_emb st' = Some b \<longrightarrow> P b" "\<forall>v. val_emb st' = Some v \<longrightarrow> P v"
      by auto
    show ?thesis
    proof (cases "PATIENCE E \<le> patience_counter st'")
      case True
      with False te "1.prems"(1) have "fin = st'\<lparr>early_stop := True\<rparr>"
        by (simp add: train_loop_step)
      with inv show ?thesis by simp
    next
      case np: False
      with False te "1.prems"(1) have "train_loop E (Suc n) st' = Inr fin"
        by (simp add: train_loop_step)
      with "1.IH" [OF False te _ _ "1.prems"(2) inv] np show ?thesis
        by simp
    qed
  qed
qed


lemma run_embeddings:
  assumes "run E s0 = Inr fin" and "\<forall>s v s'. eval_step E s = Inr (v, s') \<longrightarrow> P v"
  shows "\<exists>b. best_emb fin = Some b \<and> P b"
proof -
  from assms(1) obtain st where tl: "train_loop E 1 (initial_vars s0) = Inr st"
    by (auto simp: run_def split: sum.splits)
  from train_loop_embeddings [OF tl assms(2)]
  have inv: "\<forall>b. best_emb st = Some b \<longrightarrow> P b" "\<forall>v. val_emb st = Some v \<longrightarrow> P v"
    by (simp_all add: initial_vars_def)
  show ?thesis
  proof (cases "best_emb st")
    case (Some b)
    with assms(1) tl have "fin = st" by (simp add: run_def)
    with Some inv show ?thesis by simp
  next
    case None
    with assms(1) tl obtain v acc where "val_emb st = Some v" "fin = st\<lparr>best_emb := Some v, test_acc := acc\<rparr>"
      by (auto simp: run_def split: option.splits sum.splits)
    with inv show ?thesis by simp
  qed
qed

lemma H_GCL_script_eval_step:
  assumes "eval_step (H_GCL_script cfg tr x edge_index hyperedge_index ev sched n p) s = Inr (v, s')"
  shows "HGCLEncoder_forward (encoder_x (model_of tr s)) (fst (augment cfg (draws_of tr s) x edge_index))
           (snd (augment cfg (draws_of tr s) x edge_index)) None = Inr v"
proof -
  from assms obtain loss where
    "H_GCL_forward cfg (model_of tr s) (draws_of tr s) x edge_index hyperedge_index = Inr (loss, v)"
    by (auto simp: H_GCL_script_def split: sum.splits prod.splits)
  then show ?thesis
    unfolding H_GCL_forward_Inr by blast
qed

text \<open>
  Claim C10. The embedding that the forward pass returns is the output of the graph-view
  encoder \<open>encoder_x\<close> on the augmented features and edges, computed without a hyperedge
  incidence list. It is the same for every hypergraph-view encoder, every hyperedge
  incidence list and every denoiser with which the pass succeeds; and the output of the
  hypergraph-view encoder enters the result through the contrastive loss only: a
  hypergraph-view output with the same contrastive loss gives the same result. The
  embedding that a run of the script saves is such an output of the graph-view encoder,
  for the model and the draws of one of its states.
\<close>

theorem H_GCL_forward_embedding:
  "(H_GCL_forward cfg self rnd x edge_index hyperedge_index = Inr (loss, emb) \<longrightarrow>
      HGCLEncoder_forward (encoder_x self) (fst (augment cfg rnd x edge_index))
           (snd (augment cfg rnd x edge_index)) None = Inr emb
    \<and> (\<forall>ey' d' hyperedge_index' loss' emb'.
          H_GCL_forward cfg (self\<lparr>encoder_y := ey', denoiser := d'\<rparr>) rnd x edge_index hyperedge_index'
            = Inr (loss', emb') \<longrightarrow> emb' = emb)
    \<and> (\<exists>h_y. HGCLEncoder_forward (encoder_y self) (fst (augment cfg rnd x edge_index))
           (snd (augment cfg rnd x edge_index)) (Some hyperedge_index) = Inr h_y
         \<and> (\<forall>ey' hyperedge_index' h_y'.
               HGCLEncoder_forward ey' (fst (augment cfg rnd x edge_index))
                 (snd (augment cfg rnd x edge_index)) (Some hyperedge_index') = Inr h_y'
               \<and> contrastive_loss emb h_y' (TEMPERATURE cfg) = contrastive_loss emb h_y (TEMPERATURE cfg)
             \<longrightarrow> H_GCL_forward cfg (self\<lparr>encoder_y := ey'\<rparr>) rnd x edge_index hyperedge_index'
                   = Inr (loss, emb))))
   \<and> (run (H_GCL_script cfg tr x edge_index hyperedge_index ev sched n p) s0 = Inr fin \<longrightarrow>
        (\<exists>s b. best_emb fin = Some b
           \<and> HGCLEncoder_forward (encoder_x (model_of tr s)) (fst (augment cfg (draws_of tr s) x edge_index))
               (snd (augment cfg (draws_of tr s) x edge_index)) None = Inr b))"
proof (intro conjI impI)
  assume fw: "H_GCL_forward cfg self rnd x edge_index hyperedge_index = Inr (loss, emb)"
  then obtain h_y loss_c t ac h_x_hat loss_g where
    h: "HGCLEncoder_forward (encoder_x self) (fst (augment cfg rnd x edge_index))
          (snd (augment cfg rnd x edge_index)) None = Inr emb"
       "HGCLEncoder_forward (encoder_y self) (fst (augment cfg rnd x edge_index))
          (snd (augment cfg rnd x edge_index)) (Some hyperedge_index) = Inr h_y"
       "contrastive_loss emb h_y (TEMPERATURE cfg) = Inr loss_c"
       "py_randint rnd 0 (int (T_DIFFUSION cfg) - 1) = Inr t"
       "tensor_get (alpha_cum self) t = Inr ac" "0 \<le> ac" "ac \<le> 1"
       "DiffusionDenoiser_forward (denoiser self) (add_noise rnd ac emb)
          (snd (augment cfg rnd x edge_index)) [real_of_int t / real (T_DIFFUSION cfg)] = Inr h_x_hat"
       "mse_loss h_x_hat emb = Inr loss_g"
       "loss = GAMMA cfg * loss_c + (1 - GAMMA cfg) * loss_g"
    unfolding H_GCL_forward_Inr by blast
  show "HGCLEncoder_forward (encoder_x self) (fst (augment cfg rnd x edge_index))
           (snd (augment cfg rnd x edge_index)) None = Inr emb"
    by (rule h(1))
  have a: "emb' = emb"
    if "H_GCL_forward cfg (self\<lparr>encoder_y := ey', denoiser := d'\<rparr>) rnd x edge_index he' = Inr (loss', emb')"
    for ey' d' he' loss' emb'
    using that h(1) unfolding H_GCL_forward_Inr by auto
  then show "\<forall>ey' d' hyperedge_index' loss' emb'.
          H_GCL_forward cfg (self\<lparr>encoder_y := ey', denoiser := d'\<rparr>) rnd x edge_index hyperedge_index'
            = Inr (loss', emb') \<longrightarrow> emb' = emb"
    by blast
  have b: "H_GCL_forward cfg (self\<lparr>encoder_y := ey'\<rparr>) rnd x edge_index he' = Inr (loss, emb)"
    if "HGCLEncoder_forward ey' (fst (augment cfg rnd x edge_index))
          (snd (augment cfg rnd x edge_index)) (Some he') = Inr h_y'"
       "contrastive_loss emb h_y' (TEMPERATURE cfg) = contrastive_loss emb h_y (TEMPERATURE cfg)"
    for ey' he' h_y'
    unfolding H_GCL_forward_Inr using that h by auto
  with h(2) show "\<exists>h_y. HGCLEncoder_forward (encoder_y self) (fst (augment cfg rnd x edge_index))
           (snd (augment cfg rnd x edge_index)) (Some hyperedge_index) = Inr h_y
         \<and> (\<forall>ey' hyperedge_index' h_y'.
               HGCLEncoder_forward ey' (fst (augment cfg rnd x edge_index))
                 (snd (augment cfg rnd x edge_index)) (Some hyperedge_index') = Inr h_y'
               \<and> contrastive_loss emb h_y' (TEMPERATURE cfg) = contrastive_loss emb h_y (TEMPERATURE cfg)
             \<longrightarrow> H_GCL_forward cfg (self\<lparr>encoder_y := ey'\<rparr>) rnd x edge_index hyperedge_index'
                   = Inr (loss, emb))"
    by blast
next
  let ?E = "H_GCL_script cfg tr x edge_index hyperedge_index ev sched n p"
  let ?P = "\<lambda>v. \<exists>s. HGCLEncoder_forward (encoder_x (model_of tr s)) (fst (augment cfg (draws_of tr s) x edge_index))
               (snd (augment cfg (draws_of tr s) x edge_index)) None = Inr v"
  assume r: "run ?E s0 = Inr fin"
  have "\<forall>s v s'. eval_step ?E s = Inr (v, s') \<longrightarrow> ?P v"
  proof (intro allI impI)
    fix s v s'
    assume "eval_step ?E s = Inr (v, s')"
    then have "HGCLEncoder_forward (encoder_x (model_of tr s)) (fst (augment cfg (draws_of tr s) x edge_index))
               (snd (augment cfg (draws_of tr s) x edge_index)) None = Inr v"
      by (rule H_GCL_script_eval_step)
    then show "?P v" by blast
  qed
  from run_embeddings [of ?E s0 fin ?P, OF r this]
  show "\<exists>s b. best_emb fin = Some b
           \<and> HGCLEncoder_forward (encoder_x (model_of tr s)) (fst (augment cfg (draws_of tr s) x edge_index))
               (snd (augment cfg (draws_of tr s) x edge_index)) None = Inr b"
    by blast
qed

theorem H_GCL_forward_embedding_witness:
  "H_GCL_forward script_config (demo_model 1) demo_draws [[1, 0], [0, 1]] ([0, 1, 1], [1, 0, 1]) ([0, 1], [1, 0])
       = Inr (1 / 2 - (8 / 7 - 4 / 5 * ln (1 + exp (- 9000000000000000))), [[1, 0], [0, 1]])
   \<and> HGCLEncoder_forward (encoder_x (demo_model 1))
         (fst (augment script_config demo_draws [[1, 0], [0, 1]] ([0, 1, 1], [1, 0, 1])))
         (snd (augment script_config demo_draws [[1, 0], [0, 1]] ([0, 1, 1], [1, 0, 1]))) None
       = Inr [[1, 0], [0, 1]]
   \<and> snd (projr (H_GCL_forward script_config
         ((demo_model 1)\<lparr>encoder_y := demo_encoder 5, denoiser := demo_denoiser 2\<rparr>) demo_draws
         [[1, 0], [0, 1]] ([0, 1, 1], [1, 0, 1]) ([1, 0], [0, 1]))) = [[1, 0], [0, 1]]
   \<and> map_sum id best_emb
         (run (H_GCL_script script_config demo_trainer [[1, 0], [0, 1]] ([0, 1, 1], [1, 0, 1]) ([0, 1], [1, 0])
                (\<lambda>e m. Inr (1 / 2)) (\<lambda>s a. s) 500 1) 0)
       = Inr (Some [[1, 0], [0, 1]])"
proof -
  note T = H_GCL_forward_embedding [where cfg = script_config and self = "demo_model 1"
      and rnd = demo_draws and x = "[[1, 0], [0, 1]]" and edge_index = "([0, 1, 1], [1, 0, 1])"
      and hyperedge_index = "([0, 1], [1, 0])"
      and loss = "1 / 2 - (8 / 7 - 4 / 5 * ln (1 + exp (- 9000000000000000)))"
      and emb = "[[1, 0], [0, 1]]" and tr = demo_trainer
      and ev = "\<lambda>e m. Inr (1 / 2)" and sched = "\<lambda>s a. s" and n = 500 and p = 1 and ?s0.0 = 0]
  have a: "H_GCL_forward script_config (demo_model 1) demo_draws [[1, 0], [0, 1]] ([0, 1, 1], [1, 0, 1]) ([0, 1], [1, 0])
       = Inr (1 / 2 - (8 / 7 - 4 / 5 * ln (1 + exp (- 9000000000000000))), [[1, 0], [0, 1]])"
    by (simp add: fw_eval demo_model_def add.commute) argo
  have "\<exists>l e. H_GCL_forward script_config
         ((demo_model 1)\<lparr>encoder_y := demo_encoder 5, denoiser := demo_denoiser 2\<rparr>) demo_draws
         [[1, 0], [0, 1]] ([0, 1, 1], [1, 0, 1]) ([1, 0], [0, 1]) = Inr (l, e)"
    by (simp add: fw_eval demo_model_def)
  then obtain l e where b: "H_GCL_forward script_config
         ((demo_model 1)\<lparr>encoder_y := demo_encoder 5, denoiser := demo_denoiser 2\<rparr>) demo_draws
         [[1, 0], [0, 1]] ([0, 1, 1], [1, 0, 1]) ([1, 0], [0, 1]) = Inr (l, e)"
    by blast
  from T a b have e: "e = [[1, 0], [0, 1]]"
    by blast
  have "\<exists>fin. run (H_GCL_script script_config demo_trainer [[1, 0], [0, 1]] ([0, 1, 1], [1, 0, 1]) ([0, 1], [1, 0])
                (\<lambda>e m. Inr (1 / 2)) (\<lambda>s a. s) 500 1) 0 = Inr fin
            \<and> best_emb fin = Some [[1, 0], [0, 1]]"
    by (simp add: H_GCL_script_def demo_trainer_def loop_eval fw_eval demo_model_def)
  then have r: "map_sum id best_emb
         (run (H_GCL_script script_config demo_trainer [[1, 0], [0, 1]] ([0, 1, 1], [1, 0, 1]) ([0, 1], [1, 0])
                (\<lambda>e m. Inr (1 / 2)) (\<lambda>s a. s) 500 1) 0)
       = Inr (Some [[1, 0], [0, 1]])"
    by auto
  from T a have "HGCLEncoder_forward (encoder_x (demo_model 1))
         (fst (augment script_config demo_draws [[1, 0], [0, 1]] ([0, 1, 1], [1, 0, 1])))
         (snd (augment script_config demo_draws [[1, 0], [0, 1]] ([0, 1, 1], [1, 0, 1]))) None
       = Inr [[1, 0], [0, 1]]"
    by blast
  with a b e r show ?thesis by simp
qed

end
